theory Spec2Isabelle
  imports Main "HOL-Library.Char_ord" "HOL-Library.List_Lexorder"
begin

section \<open>c2chapel: the declaration tree and the results of the translator\<close>

text \<open>
  The translator (\<^verbatim>\<open>tools/c2chapel/c2chapel.py\<close>) walks the declaration tree that
  pycparser builds and prints Chapel \<^verbatim>\<open>extern\<close> declarations. Python is untyped and
  the code dispatches on the class of each node, so the tree is one datatype with one
  constructor per pycparser class the code names. Only the attributes the code reads
  are kept. An attribute that may be \<^verbatim>\<open>None\<close> is an option. The classes
  \<^verbatim>\<open>TypeDeclExt\<close>, \<^verbatim>\<open>ArrayDeclExt\<close> and \<^verbatim>\<open>FuncDeclExt\<close> of pycparserext are
  tested together with their base classes at every place of the code, so they are
  the constructors \<open>TypeDecl\<close>, \<open>ArrayDecl\<close> and \<open>FuncDecl\<close> here. \<open>Other\<close> is a node
  of any class the code does not name (a constant, an identifier, ...).
\<close>

datatype c_ast =
    ArrayDecl c_ast
  | Decl "string option" c_ast "c_ast option"
  | EllipsisParam
  | Enum "string option" "string list option"
  | FuncDecl "c_ast list option" c_ast
  | FuncDef c_ast
  | IdentifierType "string list"
  | Pragma
  | PtrDecl "string list" c_ast
  | Struct "string option" "c_ast list option"
  | Union "string option" "c_ast list option"
  | TypeDecl "string option" "string list" c_ast
  | Typedef string c_ast
  | Typename c_ast
  | Other

text \<open>
  \<open>Decl name type init\<close>; \<open>Enum name values\<close> with the names of the enumerators
  (\<open>None\<close> when the enum has no enumerator list); \<open>FuncDecl args type\<close> with the
  parameters of the \<^verbatim>\<open>ParamList\<close> (\<open>None\<close> when there is none);
  \<open>PtrDecl quals type\<close>; \<open>Struct name decls\<close>; \<open>TypeDecl declname quals type\<close>;
  \<open>Typedef name type\<close>; \<open>Typename type\<close>.

  An uncaught Python exception ends the run. The model returns it as a value and
  does not keep what had been printed before it.
\<close>

datatype error =
    UnhandledNodeType
  | ToChapelTypeError
  | UnableToTranslate
  | UnhandledNode
  | ExpectingTypeDecl
  | UnhandledDeclaration
  | AttributeError
  | TypeError
  | RecursionError

subsection \<open>Strings\<close>

definition nl :: string where
  "nl = [CHR 0x0A]"

definition dq :: string where
  "dq = [CHR 0x22]"

text \<open>\<^verbatim>\<open>sep.join(xs)\<close>\<close>

fun join :: "string \<Rightarrow> string list \<Rightarrow> string" where
  "join sep [] = []"
| "join sep [x] = x"
| "join sep (x # y # ys) = x @ sep @ join sep (y # ys)"

text \<open>\<^verbatim>\<open>s.split(sep)\<close> for a separator that is not empty: \<open>cur\<close> is the piece being read.\<close>

function split_from :: "string \<Rightarrow> string \<Rightarrow> string \<Rightarrow> string list" where
  "split_from sep cur [] = [cur]"
| "split_from sep cur (c # cs) =
     (if sep \<noteq> [] \<and> take (length sep) (c # cs) = sep
      then cur # split_from sep [] (drop (length sep) (c # cs))
      else split_from sep (cur @ [c]) cs)"
  by pat_completeness auto
termination
  by (relation "measure (\<lambda>(sep, cur, s). length s)") auto

definition split :: "string \<Rightarrow> string \<Rightarrow> string list" where
  "split s sep = split_from sep [] s"

text \<open>\<^verbatim>\<open>str(n)\<close> for a natural number.\<close>

definition digit :: "nat \<Rightarrow> char" where
  "digit d = char_of (48 + d)"

fun str :: "nat \<Rightarrow> string" where
  "str n = (if n < 10 then [digit n] else str (n div 10) @ [digit (n mod 10)])"

declare str.simps [simp del]

subsection \<open>The registry of C type spellings\<close>

text \<open>
  The dictionary \<^verbatim>\<open>c2chapel\<close> is filled by assignments, then by two loops. A
  dictionary is a list of pairs here, a later assignment to a key replacing the
  earlier one.
\<close>

definition assign :: "('k \<times> 'v) list \<Rightarrow> 'k \<Rightarrow> 'v \<Rightarrow> ('k \<times> 'v) list" where
  "assign d k v = (if k \<in> fst ` set d then map (\<lambda>(k', v'). if k' = k then (k', v) else (k', v')) d
                   else d @ [(k, v)])"

definition VARARGS_STR :: string where
  "VARARGS_STR = ''c__varargs ...''"

definition c2chapel_assigned :: "(string \<times> string) list" where
  "c2chapel_assigned = foldl (\<lambda>d (k, v). assign d k v) []
     [(''double'', ''c_double''),
      (''float'', ''c_float''),
      (''char'', ''c_char''),
      (''void'', ''''),
      (''int'', ''c_int''),
      (''unsigned'', ''c_uint''),
      (''unsigned int'', ''c_uint''),
      (''long'', ''c_long''),
      (''unsigned long'', ''c_ulong''),
      (''long long'', ''c_longlong''),
      (''unsigned long long'', ''c_ulonglong''),
      (''char'', ''c_char''),
      (''signed char'', ''c_schar''),
      (''unsigned char'', ''c_uchar''),
      (''short'', ''c_short''),
      (''unsigned short'', ''c_ushort''),
      (''intptr_t'', ''c_intptr''),
      (''uintptr_t'', ''c_uintptr''),
      (''ptrdiff_t'', ''c_ptrdiff''),
      (''ssize_t'', ''c_ssize_t''),
      (''size_t'', ''c_size_t''),
      (''wchar_t'', ''c_wchar_t''),
      (''long double'', ''c_longlong''),
      (''signed short'', ''c_short''),
      (''signed int'', ''c_int''),
      (''signed long long'', ''c_longlong''),
      (''signed long'', ''c_long''),
      (''FILE'', ''c_FILE'')]"

definition endswith :: "string \<Rightarrow> string \<Rightarrow> bool" where
  "endswith s suf = (length suf \<le> length s \<and> drop (length s - length suf) s = suf)"

text \<open>
  \<^verbatim>\<open>for key in __temp: if key.endswith("long"): c2chapel[key + " int"] = c2chapel[key]\<close>,
  \<^verbatim>\<open>__temp\<close> being the keys before the loop.
\<close>

definition c2chapel_long :: "(string \<times> string) list" where
  "c2chapel_long = foldl (\<lambda>d key. if endswith key ''long''
        then (case map_of d key of Some v \<Rightarrow> assign d (key @ '' int'') v | None \<Rightarrow> d)
        else d)
     c2chapel_assigned (map fst c2chapel_assigned)"

text \<open>\<^verbatim>\<open>for i in range(3, 7)\<close>: the fixed-width integer names.\<close>

definition c2chapel :: "(string \<times> string) list" where
  "c2chapel = foldl (\<lambda>d i.
        let width = (2::nat) ^ i;
            s = ''int'' @ str width @ ''_t'';
            ch = ''int('' @ str width @ '')''
        in assign (assign d s ch) (''u'' @ s) (''u'' @ ch))
     c2chapel_long [3, 4, 5, 6]"

definition chapelKeywords :: "string set" where
  "chapelKeywords = set [''align'', ''as'', ''atomic'', ''begin'', ''break'', ''by'', ''class'',
    ''cobegin'', ''coforall'', ''config'', ''const'', ''continue'', ''delete'', ''dmapped'', ''do'',
    ''domain'', ''else'', ''enum'', ''except'', ''export'', ''extern'', ''for'', ''forall'', ''if'',
    ''in'', ''index'', ''inline'', ''inout'', ''iter'', ''label'', ''lambda'', ''let'', ''local'',
    ''module'', ''new'', ''nil'', ''noinit'', ''on'', ''only'', ''otherwise'', ''out'', ''param'',
    ''private'', ''proc'', ''public'', ''record'', ''reduce'', ''ref'', ''require'', ''return'',
    ''scan'', ''select'', ''serial'', ''sparse'', ''subdomain'', ''sync'', ''then'', ''type'',
    ''union'', ''use'', ''var'', ''when'', ''where'', ''while'', ''with'', ''yield'', ''zip'',
    ''string'', ''bytes'', ''locale'']"

subsection \<open>The type resolver\<close>

text \<open>\<^verbatim>\<open>getDeclName\<close>: the result is a string or \<^verbatim>\<open>None\<close> (a struct without a tag).\<close>

definition getDeclName :: "c_ast \<Rightarrow> error + string option" where
  "getDeclName decl =
     (let inner = (case decl of TypeDecl _ _ t \<Rightarrow> t | _ \<Rightarrow> decl) in
      case inner of
        IdentifierType names \<Rightarrow> Inr (Some (join '' '' names))
      | Struct n _ \<Rightarrow> Inr n
      | Union n _ \<Rightarrow> Inr n
      | Decl n _ _ \<Rightarrow> Inr n
      | Enum _ _ \<Rightarrow> Inr (Some ''c_int'')
      | _ \<Rightarrow> Inl UnhandledNodeType)"

definition isPointerTo :: "c_ast \<Rightarrow> string \<Rightarrow> error + bool" where
  "isPointerTo ty text =
     (case ty of
        PtrDecl _ t \<Rightarrow>
          (case t of
             TypeDecl _ _ _ \<Rightarrow>
               (case getDeclName t of
                  Inl e \<Rightarrow> Inl e
                | Inr name \<Rightarrow> Inr (name = Some text))
           | _ \<Rightarrow> Inr False)
      | _ \<Rightarrow> Inr False)"

text \<open>
  The attribute \<^verbatim>\<open>quals\<close> of the nodes the resolver reads it from: a \<^verbatim>\<open>TypeDecl\<close> and
  a \<^verbatim>\<open>PtrDecl\<close> have one, an \<^verbatim>\<open>ArrayDecl\<close> and a \<^verbatim>\<open>FuncDecl\<close> have none.
\<close>

definition quals :: "c_ast \<Rightarrow> error + string list" where
  "quals n = (case n of TypeDecl _ q _ \<Rightarrow> Inr q | PtrDecl q _ \<Rightarrow> Inr q | _ \<Rightarrow> Inl AttributeError)"

definition is_ArrayDecl :: "c_ast \<Rightarrow> bool" where
  "is_ArrayDecl n = (case n of ArrayDecl _ \<Rightarrow> True | _ \<Rightarrow> False)"

definition is_FuncDecl :: "c_ast \<Rightarrow> bool" where
  "is_FuncDecl n = (case n of FuncDecl _ _ \<Rightarrow> True | _ \<Rightarrow> False)"

definition is_PtrDecl :: "c_ast \<Rightarrow> bool" where
  "is_PtrDecl n = (case n of PtrDecl _ _ \<Rightarrow> True | _ \<Rightarrow> False)"


text \<open>The pointer wrapper around an element type: \<^verbatim>\<open>c_ptrConst(T)\<close> or \<^verbatim>\<open>c_ptr(T)\<close>.\<close>

definition c_ptr :: "string list \<Rightarrow> string \<Rightarrow> string" where
  "c_ptr qs eltType =
     (if ''const'' \<in> set qs then ''c_ptrConst('' @ eltType @ '')'' else ''c_ptr('' @ eltType @ '')'')"

text \<open>
  \<^verbatim>\<open>toChapelType\<close>: a string, or \<^verbatim>\<open>None\<close>. \<^verbatim>\<open>"c_ptr(" + None\<close> is a
  \<^verbatim>\<open>TypeError\<close>; the qualifiers are read before the strings are joined.
\<close>

fun toChapelType :: "c_ast \<Rightarrow> error + string option" where
  "toChapelType (PtrDecl q t) =
     (case isPointerTo (PtrDecl q t) ''char'' of
        Inl e \<Rightarrow> Inl e
      | Inr True \<Rightarrow>
          (case quals t of
             Inl e \<Rightarrow> Inl e
           | Inr qs \<Rightarrow> Inr (Some (c_ptr qs ''c_char'')))
      | Inr False \<Rightarrow>
          if is_FuncDecl t then Inr (Some ''c_fn_ptr'')
          else
            (case (case isPointerTo (PtrDecl q t) ''void'' of
                     Inl e \<Rightarrow> Inl e
                   | Inr True \<Rightarrow> Inr (Some ''void'')
                   | Inr False \<Rightarrow> toChapelType t) of
               Inl e \<Rightarrow> Inl e
             | Inr eltType \<Rightarrow>
                 (case quals t of
                    Inl e \<Rightarrow> Inl e
                  | Inr qs \<Rightarrow>
                      (case eltType of
                         None \<Rightarrow> Inl TypeError
                       | Some s \<Rightarrow> Inr (Some (c_ptr qs s))))))"
| "toChapelType (ArrayDecl t) =
     (case toChapelType t of
        Inl e \<Rightarrow> Inl e
      | Inr None \<Rightarrow> Inr None
      | Inr (Some eltType) \<Rightarrow>
          if is_ArrayDecl t then Inr (Some eltType)
          else
            (case quals t of
               Inl e \<Rightarrow> Inl e
             | Inr qs \<Rightarrow> Inr (Some (c_ptr qs eltType))))"
| "toChapelType (TypeDecl d q t) =
     (case getDeclName (TypeDecl d q t) of
        Inl e \<Rightarrow> Inl ToChapelTypeError
      | Inr None \<Rightarrow> Inr None
      | Inr (Some name) \<Rightarrow>
          (case map_of c2chapel name of
             Some v \<Rightarrow> Inr (Some v)
           | None \<Rightarrow> Inr (Some name)))"
| "toChapelType (FuncDecl a t) = Inr (Some ''c_fn_ptr'')"
| "toChapelType _ = Inl UnableToTranslate"

subsection \<open>Configuration and the typedef table\<close>

text \<open>
  \<open>noComments\<close> and \<open>DEBUG\<close> are the globals the command line sets. \<open>depth\<close> is
  the number of nested calls the Python interpreter still allows when
  \<^verbatim>\<open>isStructOrUnionType\<close> is entered: a chain of typedef names longer than that (a
  cycle in the table, for one) raises \<^verbatim>\<open>RecursionError\<close>. \<open>showNode\<close> is
  pycparser's rendering of a node (\<^verbatim>\<open>node.show\<close>), a library function.
\<close>

record config =
  noComments :: bool
  DEBUG :: bool
  depth :: nat
  showNode :: "c_ast \<Rightarrow> string"

text \<open>
  The dictionary \<^verbatim>\<open>typeDefs\<close>: a key is a typedef name or a struct tag (\<^verbatim>\<open>None\<close> for
  a struct without one), a value is \<^verbatim>\<open>None\<close> or a \<^verbatim>\<open>Typedef\<close> node, kept as its
  \<^verbatim>\<open>name\<close> and its \<^verbatim>\<open>type\<close> (the walker stores no other node). A dictionary is a
  list of pairs with one pair for a key.
\<close>

type_synonym typedefs = "(string option \<times> (string \<times> c_ast) option) list"

text \<open>The attribute \<^verbatim>\<open>type\<close> of a node.\<close>

definition type_attr :: "c_ast \<Rightarrow> error + c_ast" where
  "type_attr n =
     (case n of
        ArrayDecl t \<Rightarrow> Inr t
      | Decl _ t _ \<Rightarrow> Inr t
      | FuncDecl _ t \<Rightarrow> Inr t
      | PtrDecl _ t \<Rightarrow> Inr t
      | TypeDecl _ _ t \<Rightarrow> Inr t
      | Typedef _ t \<Rightarrow> Inr t
      | Typename t \<Rightarrow> Inr t
      | _ \<Rightarrow> Inl AttributeError)"

definition is_StructOrUnion :: "c_ast \<Rightarrow> bool" where
  "is_StructOrUnion n = (case n of Struct _ _ \<Rightarrow> True | Union _ _ \<Rightarrow> True | _ \<Rightarrow> False)"

fun isStructOrUnionType :: "nat \<Rightarrow> typedefs \<Rightarrow> c_ast \<Rightarrow> error + bool" where
  "isStructOrUnionType 0 tds ast = Inl RecursionError"
| "isStructOrUnionType (Suc n) tds ast =
     (let inner = (case ast of TypeDecl _ _ t \<Rightarrow> t | _ \<Rightarrow> ast) in
      case (case inner of
              IdentifierType names \<Rightarrow> map_of tds (Some (join '' '' names))
            | _ \<Rightarrow> None) of
        Some None \<Rightarrow> Inl AttributeError
      | Some (Some (tdname, t)) \<Rightarrow> isStructOrUnionType n tds t
      | None \<Rightarrow> Inr (is_StructOrUnion inner))"

subsection \<open>Printing\<close>

text \<open>
  The output is the list of the strings given to \<^verbatim>\<open>print\<close>, one element for each
  call (\<^verbatim>\<open>print()\<close> gives the empty string).
\<close>

definition genComment :: "config \<Rightarrow> string \<Rightarrow> string list" where
  "genComment cfg s = (if noComments cfg then [] else map (\<lambda>line. ''// '' @ line) (split s nl))"

definition sq :: string where
  "sq = [CHR 0x27]"

subsection \<open>Function signatures\<close>

definition computeArgName :: "c_ast \<Rightarrow> error + string option" where
  "computeArgName decl =
     (case decl of
        Typename _ \<Rightarrow> Inr (Some [])
      | Decl name _ _ \<Rightarrow>
          (case name of
             Some n \<Rightarrow> if n \<in> chapelKeywords then Inr (Some (n @ ''_arg'')) else Inr (Some n)
           | None \<Rightarrow> Inr None)
      | _ \<Rightarrow> Inl UnhandledNode)"

text \<open>
  The condition of \<^verbatim>\<open>getIntentInfo\<close> on a pointer: it points to \<^verbatim>\<open>unsigned char\<close>,
  \<^verbatim>\<open>char\<close> or \<^verbatim>\<open>void\<close>, or resolves to \<^verbatim>\<open>c_fn_ptr\<close>. The tests are evaluated
  from left to right, as \<^verbatim>\<open>or\<close> does.
\<close>

definition keepsPointer :: "c_ast \<Rightarrow> error + bool" where
  "keepsPointer ty =
     (case isPointerTo ty ''unsigned char'' of
        Inl e \<Rightarrow> Inl e
      | Inr True \<Rightarrow> Inr True
      | Inr False \<Rightarrow>
          (case isPointerTo ty ''char'' of
             Inl e \<Rightarrow> Inl e
           | Inr True \<Rightarrow> Inr True
           | Inr False \<Rightarrow>
               (case isPointerTo ty ''void'' of
                  Inl e \<Rightarrow> Inl e
                | Inr True \<Rightarrow> Inr True
                | Inr False \<Rightarrow>
                    (case toChapelType ty of
                       Inl e \<Rightarrow> Inl e
                     | Inr r \<Rightarrow> Inr (r = Some ''c_fn_ptr'')))))"

text \<open>
  \<^verbatim>\<open>getIntentInfo\<close>: the intent, the type of the formal and the pointer type (the
  empty string when the type is not a pointer).
\<close>

definition getIntentInfo :: "c_ast \<Rightarrow> error + (string \<times> string option \<times> string option)" where
  "getIntentInfo ty =
     (case ty of
        PtrDecl q t \<Rightarrow>
          (case toChapelType ty of
             Inl e \<Rightarrow> Inl e
           | Inr ptrType \<Rightarrow>
               (case keepsPointer ty of
                  Inl e \<Rightarrow> Inl e
                | Inr True \<Rightarrow>
                    (case toChapelType ty of
                       Inl e \<Rightarrow> Inl e
                     | Inr retType \<Rightarrow> Inr ([], retType, ptrType))
                | Inr False \<Rightarrow>
                    (case (if ptrType \<noteq> None \<and> ptrType \<noteq> Some []
                           then (case quals t of
                                   Inl e \<Rightarrow> Inl e
                                 | Inr qs \<Rightarrow> Inr (if ''const'' \<in> set qs then ''const '' else []))
                           else Inr []) of
                       Inl e \<Rightarrow> Inl e
                     | Inr c \<Rightarrow>
                         (case toChapelType t of
                            Inl e \<Rightarrow> Inl e
                          | Inr retType \<Rightarrow> Inr (c @ ''ref'', retType, ptrType)))))
      | _ \<Rightarrow>
          (case toChapelType ty of
             Inl e \<Rightarrow> Inl e
           | Inr retType \<Rightarrow> Inr ([], retType, Some [])))"

text \<open>
  One parameter of \<^verbatim>\<open>computeArgs\<close>: what it appends to \<^verbatim>\<open>formals\<close> and to
  \<^verbatim>\<open>ptrFormals\<close>. Joining a string with \<^verbatim>\<open>None\<close> is a \<^verbatim>\<open>TypeError\<close>.
\<close>

definition computeArg :: "config \<Rightarrow> typedefs \<Rightarrow> nat \<Rightarrow> c_ast \<Rightarrow> error + (string list \<times> string list)" where
  "computeArg cfg tds i arg =
     (case arg of
        EllipsisParam \<Rightarrow> Inr ([VARARGS_STR], [VARARGS_STR])
      | _ \<Rightarrow>
        (case type_attr arg of
           Inl e \<Rightarrow> Inl e
         | Inr ty \<Rightarrow>
        (case getIntentInfo ty of
           Inl e \<Rightarrow> Inl e
         | Inr (intent0, typeName, ptrTypeName) \<Rightarrow>
        (case computeArgName arg of
           Inl e \<Rightarrow> Inl e
         | Inr argName0 \<Rightarrow>
             if typeName = Some [] then Inr ([], [])
             else
               (case (if intent0 = []
                      then (case isStructOrUnionType (depth cfg) tds ty of
                              Inl e \<Rightarrow> Inl e
                            | Inr b \<Rightarrow> Inr (if b then ''in '' else []))
                      else Inr (intent0 @ '' '')) of
                  Inl e \<Rightarrow> Inl e
                | Inr intent \<Rightarrow>
                    (let argName = (if argName0 = Some [] then Some (''arg'' @ str i) else argName0) in
                     case (argName, typeName) of
                       (Some a, Some tn) \<Rightarrow>
                         (case ptrTypeName of
                            None \<Rightarrow> Inl TypeError
                          | Some p \<Rightarrow>
                              Inr ([intent @ a @ '' : '' @ tn],
                                   [if p \<noteq> [] then a @ '' : '' @ p else intent @ a @ '' : '' @ tn]))
                     | _ \<Rightarrow> Inl TypeError))))))"

text \<open>The loop of \<^verbatim>\<open>computeArgs\<close> over \<^verbatim>\<open>enumerate(pl.params)\<close>, from index \<open>i\<close>.\<close>

fun computeFormals :: "config \<Rightarrow> typedefs \<Rightarrow> nat \<Rightarrow> c_ast list \<Rightarrow> error + (string list \<times> string list)" where
  "computeFormals cfg tds i [] = Inr ([], [])"
| "computeFormals cfg tds i (arg # args) =
     (case computeArg cfg tds i arg of
        Inl e \<Rightarrow> Inl e
      | Inr (f, p) \<Rightarrow>
          (case computeFormals cfg tds (Suc i) args of
             Inl e \<Rightarrow> Inl e
           | Inr (fs, ps) \<Rightarrow> Inr (f @ fs, p @ ps)))"

definition computeArgs :: "config \<Rightarrow> typedefs \<Rightarrow> c_ast list option \<Rightarrow> error + (string \<times> string)" where
  "computeArgs cfg tds pl =
     (case pl of
        None \<Rightarrow> Inr ([], [])
      | Some params \<Rightarrow>
          (case computeFormals cfg tds 0 params of
             Inl e \<Rightarrow> Inl e
           | Inr (formals, ptrFormals) \<Rightarrow> Inr (join '', '' formals, join '', '' ptrFormals)))"

fun getFunctionName :: "c_ast \<Rightarrow> error + string option" where
  "getFunctionName (PtrDecl q t) = getFunctionName t"
| "getFunctionName (FuncDecl a t) = getFunctionName t"
| "getFunctionName (TypeDecl d q t) = Inr d"
| "getFunctionName _ = Inl ExpectingTypeDecl"

text \<open>
  \<^verbatim>\<open>re.match(r'.*: \bva_list\b', args)\<close>: some prefix without a newline is followed
  by \<^verbatim>\<open>: va_list\<close>, and no word character follows that. The first \<^verbatim>\<open>\b\<close> stands
  between the blank and \<open>v\<close>, so it always holds.
\<close>

definition is_word :: "char \<Rightarrow> bool" where
  "is_word c = ((CHR ''a'' \<le> c \<and> c \<le> CHR ''z'') \<or> (CHR ''A'' \<le> c \<and> c \<le> CHR ''Z'')
                \<or> (CHR ''0'' \<le> c \<and> c \<le> CHR ''9'') \<or> c = CHR ''_'')"

definition va_list_here :: "string \<Rightarrow> bool" where
  "va_list_here s = (take 9 s = '': va_list'' \<and> (case drop 9 s of [] \<Rightarrow> True | c # _ \<Rightarrow> \<not> is_word c))"

fun va_list_match :: "string \<Rightarrow> bool" where
  "va_list_match [] = va_list_here []"
| "va_list_match (c # cs) = (va_list_here (c # cs) \<or> (c \<noteq> CHR 0x0A \<and> va_list_match cs))"

text \<open>The line \<^verbatim>\<open>"extern proc " + fnName + "(" + args + ") : " + retType + ";\n"\<close>.\<close>

definition extern_proc :: "string \<Rightarrow> string \<Rightarrow> string \<Rightarrow> string" where
  "extern_proc fnName args retType =
     ''extern proc '' @ fnName @ ''('' @ args @ '') : '' @ retType @ '';'' @ nl"

text \<open>
  The end of \<^verbatim>\<open>genFuncDecl\<close>: the overload without the variadic marker, printed
  when the last piece of \<^verbatim>\<open>args.split(", ")\<close> is the marker.
\<close>

definition varargsOverload :: "config \<Rightarrow> string \<Rightarrow> string \<Rightarrow> string \<Rightarrow> string list" where
  "varargsOverload cfg fnName args retType =
     (let listArgs = split args '', '' in
      if last listArgs = VARARGS_STR
      then genComment cfg ''Overload for empty varargs''
           @ [extern_proc fnName (join '','' (butlast listArgs)) retType]
      else [])"

text \<open>
  \<^verbatim>\<open>genFuncDecl\<close>, for the \<^verbatim>\<open>FuncDecl\<close> node the walker gives it. The name, the
  return type and the formals are computed before the two tests that skip the
  function. A name that is \<^verbatim>\<open>None\<close> is in no set of keywords and is then joined
  with a string on each of the paths left, a \<^verbatim>\<open>TypeError\<close>.
\<close>

definition genFuncDecl :: "config \<Rightarrow> typedefs \<Rightarrow> c_ast \<Rightarrow> error + string list" where
  "genFuncDecl cfg tds fn =
     (case fn of
        FuncDecl fargs ftype \<Rightarrow>
          (case toChapelType ftype of
             Inl e \<Rightarrow> Inl e
           | Inr retType0 \<Rightarrow>
          (case getFunctionName ftype of
             Inl e \<Rightarrow> Inl e
           | Inr fnName0 \<Rightarrow>
          (case computeArgs cfg tds fargs of
             Inl e \<Rightarrow> Inl e
           | Inr (args, ptrArgs) \<Rightarrow>
               (case fnName0 of
                  None \<Rightarrow> Inl TypeError
                | Some fnName \<Rightarrow>
                    if fnName \<in> chapelKeywords
                    then Inr (genComment cfg (''Unable to generate function '' @ sq @ fnName @ sq
                                              @ '' because its name is a Chapel keyword'') @ [[]])
                    else if va_list_match args
                    then Inr (genComment cfg (''Unable to generate function '' @ sq @ fnName @ sq
                                              @ '' due to va_list argument'') @ [[]])
                    else
                      (case (if retType0 = Some [] then Some ''void'' else retType0) of
                         None \<Rightarrow> Inl TypeError
                       | Some retType \<Rightarrow>
                           Inr ([extern_proc fnName args retType]
                                @ (if ptrArgs \<noteq> args then [extern_proc fnName ptrArgs retType] else [])
                                @ varargsOverload cfg fnName args retType))))))
      | _ \<Rightarrow> Inl AttributeError)"

subsection \<open>Structs and unions\<close>

fun getStructOrUnionDef :: "c_ast \<Rightarrow> c_ast option" where
  "getStructOrUnionDef (Struct n decls) = (if decls \<noteq> None then Some (Struct n decls) else None)"
| "getStructOrUnionDef (Union n decls) = (if decls \<noteq> None then Some (Union n decls) else None)"
| "getStructOrUnionDef (Decl n t i) = getStructOrUnionDef t"
| "getStructOrUnionDef (TypeDecl d q t) = getStructOrUnionDef t"
| "getStructOrUnionDef (PtrDecl q t) = getStructOrUnionDef t"
| "getStructOrUnionDef _ = None"

lemma size_getStructOrUnionDef: "getStructOrUnionDef d = Some s \<Longrightarrow> size s \<le> size d"
  by (induction d rule: getStructOrUnionDef.induct) (auto split: if_splits)

text \<open>
  The name, the member list and the kind of a \<^verbatim>\<open>Struct\<close> or \<^verbatim>\<open>Union\<close> node. The callers
  of \<^verbatim>\<open>genStructOrUnion\<close> give it such a node only.
\<close>

definition structOrUnionParts :: "c_ast \<Rightarrow> (string option \<times> c_ast list option \<times> bool) option" where
  "structOrUnionParts n =
     (case n of
        Struct sname decls \<Rightarrow> Some (sname, decls, False)
      | Union sname decls \<Rightarrow> Some (sname, decls, True)
      | _ \<Rightarrow> None)"

lemma size_structOrUnionParts:
  "structOrUnionParts n = Some (sname, Some decls, u) \<Longrightarrow> size_list size decls < size n"
  by (cases n) (auto simp: structOrUnionParts_def)

text \<open>
  \<^verbatim>\<open>isStructOrUnionForwardDeclared(node)\<close>: \<^verbatim>\<open>not node.decls\<close> holds for \<^verbatim>\<open>None\<close> and
  for the empty list.
\<close>

definition isStructOrUnionForwardDeclared :: "config \<Rightarrow> typedefs \<Rightarrow> c_ast \<Rightarrow> error + bool" where
  "isStructOrUnionForwardDeclared cfg tds node =
     (case isStructOrUnionType (depth cfg) tds node of
        Inl e \<Rightarrow> Inl e
      | Inr False \<Rightarrow> Inr False
      | Inr True \<Rightarrow>
          (case structOrUnionParts node of
             None \<Rightarrow> Inl AttributeError
           | Some (sname, decls, u) \<Rightarrow> Inr (decls = None \<or> decls = Some [])))"

text \<open>The first line of the declaration, up to the opening brace.\<close>

definition structHeader :: "bool \<Rightarrow> bool \<Rightarrow> string \<Rightarrow> string" where
  "structHeader isAnon isUnion name =
     (if isAnon then (if isUnion then ''extern union '' else ''extern record '')
      else (if isUnion then ''extern '' @ dq @ ''union '' @ name @ dq @ '' union ''
            else ''extern '' @ dq @ ''struct '' @ name @ dq @ '' record ''))
     @ name @ '' {''"

definition fieldLine :: "string \<Rightarrow> string \<Rightarrow> string" where
  "fieldLine fieldName chapelType = ''  var '' @ fieldName @ '' : '' @ chapelType @ '';'' @ nl"

text \<open>
  \<^verbatim>\<open>genStructOrUnion\<close> and its loop over the members. The set \<^verbatim>\<open>foundTypes\<close> is
  passed in and returned. The loop returns what the nested definitions printed, the
  set, \<^verbatim>\<open>members\<close>, \<^verbatim>\<open>warnKeyword\<close> and \<^verbatim>\<open>warnSkippingAnonymousType\<close>; it ends at
  a \<^verbatim>\<open>break\<close> or with the list. The empty string as \<open>name\<close> is the default of the
  parameter.
\<close>

function genStructOrUnion ::
    "config \<Rightarrow> typedefs \<Rightarrow> string set \<Rightarrow> c_ast \<Rightarrow> string \<Rightarrow> bool \<Rightarrow> error + (string list \<times> string set)"
  and genMembers ::
    "config \<Rightarrow> typedefs \<Rightarrow> string set \<Rightarrow> c_ast list \<Rightarrow> string
      \<Rightarrow> error + (string list \<times> string set \<times> string \<times> bool \<times> bool)"
where
  "genStructOrUnion cfg tds found structOrUnion name0 isAnon =
     (case structOrUnionParts structOrUnion of
        None \<Rightarrow> Inl AttributeError
      | Some (sname, sdecls, unionNode) \<Rightarrow>
          (case (if name0 = [] then sname else Some name0) of
             None \<Rightarrow> Inr ([], found)
           | Some name \<Rightarrow>
               (let isUnion = (unionNode \<and> sdecls \<noteq> None) in
                if name \<in> chapelKeywords
                then Inr (genComment cfg (''Unable to generate '' @ (if isUnion then ''union'' else ''struct'')
                                          @ '' '' @ sq @ name @ sq @ '' '' @ ''because its name is a Chapel keyword'')
                          @ [[]], found)
                else
                  (case isStructOrUnionForwardDeclared cfg tds structOrUnion of
                     Inl e \<Rightarrow> Inl e
                   | Inr True \<Rightarrow> Inr ([[]], insert name found)
                   | Inr False \<Rightarrow>
                       (case sdecls of
                          None \<Rightarrow> Inl TypeError
                        | Some decls \<Rightarrow>
                            (case genMembers cfg tds (insert name found) decls [] of
                               Inl e \<Rightarrow> Inl e
                             | Inr (nested, found', members, warnKeyword, warnSkippingAnonymousType) \<Rightarrow>
                                 Inr (nested
                                      @ (if warnKeyword
                                         then genComment cfg
                                           ''Fields omitted because one or more of the identifiers is a Chapel keyword''
                                         else [])
                                      @ (if warnSkippingAnonymousType
                                         then genComment cfg
                                           ''Anonymous union or struct was encountered within and skipped.''
                                         else [])
                                      @ [structHeader isAnon isUnion name
                                         @ (if members \<noteq> [] then nl @ members else members) @ ''}'' @ nl],
                                      found')))))))"
| "genMembers cfg tds found [] members = Inr ([], found, members, False, False)"
| "genMembers cfg tds found (decl # decls) members =
     (case (case getStructOrUnionDef decl of
              None \<Rightarrow> Inr ([], found)
            | Some innerStructOrUnion \<Rightarrow> genStructOrUnion cfg tds found innerStructOrUnion [] False) of
        Inl e \<Rightarrow> Inl e
      | Inr (out1, found1) \<Rightarrow>
          if decl = Pragma then Inr (out1, found1, members, False, False)
          else
            (case getDeclName decl of
               Inl e \<Rightarrow> Inl e
             | Inr fieldName \<Rightarrow>
                 if (case fieldName of Some n \<Rightarrow> n \<in> chapelKeywords | None \<Rightarrow> False)
                 then Inr (out1, found1, [], True, False)
                 else
                   (case type_attr decl of
                      Inl e \<Rightarrow> Inl e
                    | Inr ty \<Rightarrow>
                        (case toChapelType ty of
                           Inl e \<Rightarrow> Inl e
                         | Inr None \<Rightarrow> Inr (out1, found1, members, False, True)
                         | Inr (Some chapelType) \<Rightarrow>
                             (case fieldName of
                                None \<Rightarrow> Inl TypeError
                              | Some f \<Rightarrow>
                                  (case genMembers cfg tds found1 decls (members @ fieldLine f chapelType) of
                                     Inl e \<Rightarrow> Inl e
                                   | Inr (out2, found2, members2, wk, ws) \<Rightarrow>
                                       Inr (out1 @ out2, found2, members2, wk, ws)))))))"
  by pat_completeness auto
termination
  by (relation "measure (\<lambda>x. case x of
          Inl (cfg, tds, found, node, name0, isAnon) \<Rightarrow> size node
        | Inr (cfg, tds, found, decls, members) \<Rightarrow> size_list size decls)")
     (auto dest: size_structOrUnionParts size_getStructOrUnionDef)

subsection \<open>Global variables and enums\<close>

text \<open>\<^verbatim>\<open>genVar(decl)\<close>, for the \<^verbatim>\<open>Decl\<close> node the walker gives it.\<close>

definition genVar :: "c_ast \<Rightarrow> error + string list" where
  "genVar decl =
     (case decl of
        Decl dname t i \<Rightarrow>
          (let name = (case dname of
                         Some n \<Rightarrow> if n \<in> chapelKeywords then Some (''c2chapel_'' @ n) else Some n
                       | None \<Rightarrow> None) in
           case toChapelType t of
             Inl e \<Rightarrow> Inl e
           | Inr ty \<Rightarrow>
               (case (name, ty) of
                  (Some n, Some ty') \<Rightarrow> Inr [''extern var '' @ n @ '' : '' @ ty' @ '';'', []]
                | _ \<Rightarrow> Inl TypeError))
      | _ \<Rightarrow> Inl AttributeError)"



subsection \<open>Integer literals defined by the preprocessor\<close>

text \<open>
  \<^verbatim>\<open>emit_defines\<close> matches each line of the file against
  \<^verbatim>\<open>^\s*#define\s+([_a-zA-Z0-9]+)\s+[0-9]+$\<close>. The classes of the pattern are
  disjoint where they meet, so a line matches in one way at most: blanks, the
  word \<^verbatim>\<open>#define\<close>, at least one blank, the longest run of name characters, at
  least one blank, the longest run of digits, and then the end of the line or its
  final newline. The file is read as ASCII text.
\<close>

definition is_space :: "char \<Rightarrow> bool" where
  "is_space c = (c \<in> set [CHR '' '', CHR 0x09, CHR 0x0A, CHR 0x0B, CHR 0x0C, CHR 0x0D,
                            CHR 0x1C, CHR 0x1D, CHR 0x1E, CHR 0x1F])"

definition is_digit :: "char \<Rightarrow> bool" where
  "is_digit c = (CHR ''0'' \<le> c \<and> c \<le> CHR ''9'')"

definition match_define :: "string \<Rightarrow> string option" where
  "match_define line =
     (let s1 = dropWhile is_space line in
      if take 7 s1 \<noteq> ''#define'' then None
      else
        (let s2 = drop 7 s1;
             s3 = dropWhile is_space s2;
             name = takeWhile is_word s3;
             s4 = dropWhile is_word s3;
             s5 = dropWhile is_space s4;
             digits = takeWhile is_digit s5;
             s6 = dropWhile is_digit s5
         in if takeWhile is_space s2 = [] \<or> name = [] \<or> takeWhile is_space s4 = [] \<or> digits = []
            then None
            else if s6 = [] \<or> s6 = nl then Some name else None))"

text \<open>The loop of \<^verbatim>\<open>emit_defines\<close> over the lines, with its flag \<^verbatim>\<open>first\<close>.\<close>

fun emit_lines :: "config \<Rightarrow> bool \<Rightarrow> string list \<Rightarrow> string list" where
  "emit_lines cfg first [] =
     (if \<not> first then [[]] @ genComment cfg (''End of #define'' @ sq @ ''d integer literals'') @ [[]]
      else [])"
| "emit_lines cfg first (line # lines) =
     (case match_define line of
        None \<Rightarrow> emit_lines cfg first lines
      | Some name \<Rightarrow>
          (if first
           then genComment cfg (''#define'' @ sq @ ''d integer literals:'')
                @ genComment cfg ''Note: some of these may have been defined with an ifdef''
           else [])
          @ [''extern const '' @ name @ '' : int;'']
          @ emit_lines cfg False lines)"

definition emit_defines :: "config \<Rightarrow> string list \<Rightarrow> string list" where
  "emit_defines cfg lines = emit_lines cfg True lines"

subsection \<open>Typedefs\<close>











subsection \<open>The walker\<close>








subsection \<open>The main program\<close>



subsection \<open>Names used in the statements\<close>

text \<open>The configuration without flags of the command line.\<close>

definition default_config :: config where
  "default_config = \<lparr>noComments = False, DEBUG = False, depth = 1000, showNode = (\<lambda>n. [])\<rparr>"

text \<open>Every parameter whose type is a pointer is a pointer to \<^verbatim>\<open>unsigned char\<close>.\<close>

definition pointersToUnsignedChar :: "c_ast list \<Rightarrow> bool" where
  "pointersToUnsignedChar params =
     list_all (\<lambda>arg. case type_attr arg of
                        Inl e \<Rightarrow> True
                      | Inr ty \<Rightarrow> \<not> is_PtrDecl ty \<or> isPointerTo ty ''unsigned char'' = Inr True) params"

text \<open>
  The members of a struct as the loop of \<^verbatim>\<open>genStructOrUnion\<close> meets them. A member
  resolves when it is no pragma, its name is a string that is no keyword and its
  type resolves to a name: the loop adds its line and goes on. Its type is
  unresolved when \<^verbatim>\<open>toChapelType\<close> returns \<^verbatim>\<open>None\<close> for it (a struct or union without
  a tag), its name being no keyword. Its name is a keyword when \<^verbatim>\<open>getDeclName\<close>
  returns a keyword.
\<close>

definition resolvedField :: "c_ast \<Rightarrow> (string \<times> string) option" where
  "resolvedField decl =
     (if decl = Pragma then None
      else (case getDeclName decl of
              Inr (Some f) \<Rightarrow>
                if f \<in> chapelKeywords then None
                else (case type_attr decl of
                        Inr ty \<Rightarrow> (case toChapelType ty of Inr (Some ct) \<Rightarrow> Some (f, ct) | _ \<Rightarrow> None)
                      | Inl e \<Rightarrow> None)
            | _ \<Rightarrow> None))"

definition fieldText :: "c_ast \<Rightarrow> string" where
  "fieldText decl = (case resolvedField decl of Some (f, ct) \<Rightarrow> fieldLine f ct | None \<Rightarrow> [])"

definition unresolvedField :: "c_ast \<Rightarrow> bool" where
  "unresolvedField decl =
     (decl \<noteq> Pragma
      \<and> (case getDeclName decl of
            Inr None \<Rightarrow> True
          | Inr (Some f) \<Rightarrow> f \<notin> chapelKeywords
          | Inl e \<Rightarrow> False)
      \<and> (case type_attr decl of
            Inr ty \<Rightarrow> toChapelType ty = Inr None
          | Inl e \<Rightarrow> False))"

definition keywordField :: "c_ast \<Rightarrow> bool" where
  "keywordField decl =
     (decl \<noteq> Pragma
      \<and> (case getDeclName decl of
            Inr (Some f) \<Rightarrow> f \<in> chapelKeywords
          | _ \<Rightarrow> False))"

text \<open>Two members used in the examples: \<^verbatim>\<open>int n;\<close> and \<^verbatim>\<open>struct { int x; } n;\<close>.\<close>

definition intField :: "string \<Rightarrow> c_ast" where
  "intField n = Decl (Some n) (TypeDecl (Some n) [] (IdentifierType [''int''])) None"

definition anonStructField :: "string \<Rightarrow> c_ast" where
  "anonStructField n =
     Decl (Some n) (TypeDecl (Some n) [] (Struct None (Some [intField ''x'']))) None"




section \<open>The type resolver\<close>

text \<open>The registry after the assignments and the two loops.\<close>

lemma c2chapel_eq:
  "c2chapel = [(''double'', ''c_double''), (''float'', ''c_float''),
    (''char'', ''c_char''), (''void'', []), (''int'', ''c_int''),
    (''unsigned'', ''c_uint''), (''unsigned int'', ''c_uint''),
    (''long'', ''c_long''), (''unsigned long'', ''c_ulong''),
    (''long long'', ''c_longlong''),
    (''unsigned long long'', ''c_ulonglong''), (''signed char'', ''c_schar''),
    (''unsigned char'', ''c_uchar''), (''short'', ''c_short''),
    (''unsigned short'', ''c_ushort''), (''intptr_t'', ''c_intptr''),
    (''uintptr_t'', ''c_uintptr''), (''ptrdiff_t'', ''c_ptrdiff''),
    (''ssize_t'', ''c_ssize_t''), (''size_t'', ''c_size_t''),
    (''wchar_t'', ''c_wchar_t''), (''long double'', ''c_longlong''),
    (''signed short'', ''c_short''), (''signed int'', ''c_int''),
    (''signed long long'', ''c_longlong''), (''signed long'', ''c_long''),
    (''FILE'', ''c_FILE''), (''long int'', ''c_long''),
    (''unsigned long int'', ''c_ulong''), (''long long int'', ''c_longlong''),
    (''unsigned long long int'', ''c_ulonglong''),
    (''signed long long int'', ''c_longlong''),
    (''signed long int'', ''c_long''), (''int8_t'', ''int(8)''),
    (''uint8_t'', ''uint(8)''), (''int16_t'', ''int(16)''),
    (''uint16_t'', ''uint(16)''), (''int32_t'', ''int(32)''),
    (''uint32_t'', ''uint(32)''), (''int64_t'', ''int(64)''),
    (''uint64_t'', ''uint(64)'')]"
  by code_simp

lemma lookup_char: "map_of c2chapel ''char'' = Some ''c_char''"
  by (simp add: c2chapel_eq)

lemma lookup_void: "map_of c2chapel ''void'' = Some []"
  by (simp add: c2chapel_eq)

lemma lookup_int: "map_of c2chapel ''int'' = Some ''c_int''"
  by (simp add: c2chapel_eq)

lemma lookup_uchar: "map_of c2chapel ''unsigned char'' = Some ''c_uchar''"
  by (simp add: c2chapel_eq)

lemma toChapelType_IdentifierType:
  "toChapelType (TypeDecl d q (IdentifierType names)) =
     Inr (Some (case map_of c2chapel (join '' '' names) of Some v \<Rightarrow> v | None \<Rightarrow> join '' '' names))"
  by (simp add: getDeclName_def split: option.split)

text \<open>
  Claim C3, as stated, fails: \<^verbatim>\<open>long double\<close> does not resolve to a floating-point
  name. The registry holds \<^verbatim>\<open>c_longlong\<close> for it, the name it holds for
  \<^verbatim>\<open>long long\<close>, and neither \<^verbatim>\<open>c_double\<close> nor \<^verbatim>\<open>c_float\<close>.
\<close>

theorem C3_long_double_counterexample:
  "toChapelType (TypeDecl (Some ''x'') [] (IdentifierType [''long'', ''double''])) = Inr (Some ''c_longlong'')
   \<and> toChapelType (TypeDecl (Some ''y'') [] (IdentifierType [''long'', ''long''])) = Inr (Some ''c_longlong'')
   \<and> toChapelType (TypeDecl (Some ''x'') [] (IdentifierType [''long'', ''double''])) \<noteq> Inr (Some ''c_double'')
   \<and> toChapelType (TypeDecl (Some ''x'') [] (IdentifierType [''long'', ''double''])) \<noteq> Inr (Some ''c_float'')"
  by (simp add: getDeclName_def c2chapel_eq)

text \<open>
  Claim C3, amended: the resolver computes no fallback. A primitive spelling (the
  names of an \<^verbatim>\<open>IdentifierType\<close> joined by blanks) that is a key of the registry
  resolves to the entry the registry holds for it, any other spelling resolves to
  itself, and \<^verbatim>\<open>float\<close> and \<^verbatim>\<open>double\<close> resolve to \<^verbatim>\<open>c_float\<close> and \<^verbatim>\<open>c_double\<close>.
\<close>

theorem C3_registry_lookup:
  "toChapelType (TypeDecl d q (IdentifierType names)) =
     Inr (Some (case map_of c2chapel (join '' '' names) of Some v \<Rightarrow> v | None \<Rightarrow> join '' '' names))
   \<and> toChapelType (TypeDecl d q (IdentifierType [''float''])) = Inr (Some ''c_float'')
   \<and> toChapelType (TypeDecl d q (IdentifierType [''double''])) = Inr (Some ''c_double'')"
  by (simp add: getDeclName_def c2chapel_eq split: option.split)

subsection \<open>Pointers to pointers\<close>

lemma isPointerTo_Ptr_Ptr: "isPointerTo (PtrDecl q1 (PtrDecl q2 T)) text = Inr False"
  by (simp add: isPointerTo_def)

lemma ptr_ptr_step:
  "toChapelType (PtrDecl q1 (PtrDecl q2 T)) =
     (case toChapelType (PtrDecl q2 T) of
        Inl e \<Rightarrow> Inl e
      | Inr None \<Rightarrow> Inl TypeError
      | Inr (Some s) \<Rightarrow> Inr (Some (c_ptr q2 s)))"
  by (simp add: isPointerTo_Ptr_Ptr is_FuncDecl_def quals_def split: sum.split option.split)

lemma ptr_TypeDecl:
  assumes "toChapelType (TypeDecl d qs t) = Inr (Some s)"
  shows "toChapelType (PtrDecl q2 (TypeDecl d qs t)) =
     Inr (Some (c_ptr qs (if isPointerTo (PtrDecl q2 (TypeDecl d qs t)) ''void'' = Inr True then ''void'' else s)))"
proof -
  from assms obtain name where n: "getDeclName (TypeDecl d qs t) = Inr (Some name)"
    by (auto split: sum.splits option.splits)
  show ?thesis
  proof (cases "name = ''char''")
    case True
    with assms n show ?thesis
      by (simp add: isPointerTo_def quals_def lookup_char)
  next
    case False
    with assms n show ?thesis
      by (simp add: isPointerTo_def quals_def is_FuncDecl_def)
  qed
qed

lemma ptr_PtrDecl:
  assumes "toChapelType (PtrDecl qs t) = Inr (Some s)"
  shows "toChapelType (PtrDecl q2 (PtrDecl qs t)) = Inr (Some (c_ptr qs s))"
  by (simp only: ptr_ptr_step assms sum.case option.case)

text \<open>
  Claim C6, as stated, fails for a function type \<open>T\<close>, which is neither \<^verbatim>\<open>char\<close> nor
  \<^verbatim>\<open>void\<close>: \<open>T\<close> resolves to \<^verbatim>\<open>c_fn_ptr\<close>, and a pointer to a pointer to \<open>T\<close>
  (\<^verbatim>\<open>void (**pp)(void)\<close>) resolves to \<^verbatim>\<open>c_ptr(c_fn_ptr)\<close>, the wrapper applied once,
  not to \<^verbatim>\<open>c_ptr(c_ptr(c_fn_ptr))\<close>.
\<close>

theorem C6_function_pointer_counterexample:
  "toChapelType (FuncDecl None (TypeDecl (Some ''pp'') [] (IdentifierType [''void'']))) = Inr (Some ''c_fn_ptr'')
   \<and> toChapelType (PtrDecl [] (PtrDecl []
        (FuncDecl None (TypeDecl (Some ''pp'') [] (IdentifierType [''void''])))))
      = Inr (Some ''c_ptr(c_fn_ptr)'')
   \<and> c_ptr [] (c_ptr [] ''c_fn_ptr'') = ''c_ptr(c_ptr(c_fn_ptr))''"
  by (simp add: isPointerTo_def is_FuncDecl_def quals_def c_ptr_def)

text \<open>
  Claim C6, amended: for a type \<open>T\<close> that resolves to a name \<open>s\<close> and carries
  qualifiers \<open>qs\<close> (a type declaration or a pointer), a pointer to a pointer to \<open>T\<close>
  resolves to the pointer wrapper applied twice, the inner wrapper chosen by the
  qualifiers of \<open>T\<close> and the outer one by those of the inner pointer. It is applied
  to \<open>s\<close>, except when \<open>T\<close> is \<^verbatim>\<open>void\<close>, where the inner pointer is the untyped
  pointer \<^verbatim>\<open>c_ptr(void)\<close>; for \<^verbatim>\<open>char\<close> the inner pointer is the string pointer
  \<^verbatim>\<open>c_ptr(c_char)\<close>, which is the wrapper applied to \<open>s\<close>. For a function type \<open>T\<close>
  the inner pointer is \<^verbatim>\<open>c_fn_ptr\<close> and the wrapper is applied once.
\<close>

theorem C6_pointer_to_pointer:
  assumes "toChapelType T = Inr (Some s)" and "quals T = Inr qs"
  shows "toChapelType (PtrDecl q1 (PtrDecl q2 T)) =
           Inr (Some (c_ptr q2 (c_ptr qs
             (if isPointerTo (PtrDecl q2 T) ''void'' = Inr True then ''void'' else s))))
         \<and> (isPointerTo (PtrDecl q2 T) ''char'' = Inr True \<longrightarrow> s = ''c_char'')
         \<and> toChapelType (PtrDecl q1 (PtrDecl q2 (FuncDecl a t))) = Inr (Some (c_ptr q2 ''c_fn_ptr''))"
proof (intro conjI impI)
  from assms consider (td) d t' where "T = TypeDecl d qs t'" | (pd) t' where "T = PtrDecl qs t'"
    by (cases T) (auto simp: quals_def)
  then show "toChapelType (PtrDecl q1 (PtrDecl q2 T)) =
        Inr (Some (c_ptr q2 (c_ptr qs
          (if isPointerTo (PtrDecl q2 T) ''void'' = Inr True then ''void'' else s))))"
  proof cases
    case td
    from assms have "toChapelType (TypeDecl d qs t') = Inr (Some s)"
      unfolding td by blast
    then have "toChapelType (PtrDecl q2 T) =
       Inr (Some (c_ptr qs (if isPointerTo (PtrDecl q2 T) ''void'' = Inr True then ''void'' else s)))"
      unfolding td by (rule ptr_TypeDecl)
    then show ?thesis by (simp only: ptr_ptr_step sum.case option.case)
  next
    case pd
    from assms have "toChapelType (PtrDecl qs t') = Inr (Some s)"
      unfolding pd by blast
    then have "toChapelType (PtrDecl q2 T) = Inr (Some (c_ptr qs s))"
      unfolding pd by (rule ptr_PtrDecl)
    moreover from pd have "isPointerTo (PtrDecl q2 T) ''void'' = Inr False"
      by (simp add: isPointerTo_def)
    ultimately show ?thesis by (simp only: ptr_ptr_step sum.case option.case) simp
  qed
next
  assume c: "isPointerTo (PtrDecl q2 T) ''char'' = Inr True"
  then obtain d q' t' where T: "T = TypeDecl d q' t'"
    by (cases T) (auto simp: isPointerTo_def)
  from c T have "getDeclName (TypeDecl d q' t') = Inr (Some ''char'')"
    by (auto simp: isPointerTo_def split: sum.splits)
  with assms(1) T show "s = ''c_char''"
    by (simp add: lookup_char)
next
  show "toChapelType (PtrDecl q1 (PtrDecl q2 (FuncDecl a t))) = Inr (Some (c_ptr q2 ''c_fn_ptr''))"
    by (simp add: ptr_ptr_step isPointerTo_def is_FuncDecl_def quals_def)
qed

theorem C6_pointer_to_pointer_witness:
  "toChapelType (TypeDecl (Some ''p'') [] (IdentifierType [''int''])) = Inr (Some ''c_int'')
   \<and> quals (TypeDecl (Some ''p'') [] (IdentifierType [''int''])) = Inr []
   \<and> toChapelType (PtrDecl [] (PtrDecl [''const''] (TypeDecl (Some ''p'') [] (IdentifierType [''int'']))))
       = Inr (Some ''c_ptrConst(c_ptr(c_int))'')
   \<and> toChapelType (PtrDecl [] (PtrDecl [] (TypeDecl (Some ''v'') [] (IdentifierType [''void'']))))
       = Inr (Some ''c_ptr(c_ptr(void))'')
   \<and> toChapelType (PtrDecl [] (PtrDecl [] (TypeDecl (Some ''s'') [''const''] (IdentifierType [''char'']))))
       = Inr (Some ''c_ptr(c_ptrConst(c_char))'')"
proof -
  have h1: "toChapelType (TypeDecl (Some ''p'') [] (IdentifierType [''int''])) = Inr (Some ''c_int'')"
    by (simp add: getDeclName_def lookup_int)
  have h2: "quals (TypeDecl (Some ''p'') [] (IdentifierType [''int''])) = Inr []"
    by (simp add: quals_def)
  have v1: "toChapelType (TypeDecl (Some ''v'') [] (IdentifierType [''void''])) = Inr (Some [])"
    by (simp add: getDeclName_def lookup_void)
  have v2: "quals (TypeDecl (Some ''v'') [] (IdentifierType [''void''])) = Inr []"
    by (simp add: quals_def)
  have s1: "toChapelType (TypeDecl (Some ''s'') [''const''] (IdentifierType [''char''])) = Inr (Some ''c_char'')"
    by (simp add: getDeclName_def lookup_char)
  have s2: "quals (TypeDecl (Some ''s'') [''const''] (IdentifierType [''char''])) = Inr [''const'']"
    by (simp add: quals_def)
  show ?thesis
    using h1 h2
      C6_pointer_to_pointer [OF h1 h2, of "[]" "[''const'']" None Other]
      C6_pointer_to_pointer [OF v1 v2, of "[]" "[]" None Other]
      C6_pointer_to_pointer [OF s1 s2, of "[]" "[]" None Other]
    by (simp add: c_ptr_def isPointerTo_def getDeclName_def)
qed

section \<open>Function signatures\<close>

lemma genFuncDecl_emits:
  assumes "toChapelType ftype = Inr (Some rt)"
    and "getFunctionName ftype = Inr (Some fnName)"
    and "computeArgs cfg tds fargs = Inr (args, ptrArgs)"
    and "fnName \<notin> chapelKeywords"
    and "\<not> va_list_match args"
  shows "genFuncDecl cfg tds (FuncDecl fargs ftype) =
           Inr ([extern_proc fnName args (if rt = [] then ''void'' else rt)]
                @ (if ptrArgs \<noteq> args then [extern_proc fnName ptrArgs (if rt = [] then ''void'' else rt)] else [])
                @ varargsOverload cfg fnName args (if rt = [] then ''void'' else rt))"
  using assms by (simp add: genFuncDecl_def)

lemma keyword_x: "''x'' \<notin> chapelKeywords" "''f'' \<notin> chapelKeywords"
  by (simp_all add: chapelKeywords_def)

lemma computeArgs_const_int_ptr:
  "computeArgs cfg tds
     (Some [Decl (Some ''x'') (PtrDecl [] (TypeDecl (Some ''x'') [''const''] (IdentifierType [''int'']))) None])
   = Inr (''const ref x : c_int'', ''x : c_ptrConst(c_int)'')"
  by (simp add: computeArgs_def computeArg_def type_attr_def getIntentInfo_def keepsPointer_def
      isPointerTo_def getDeclName_def quals_def computeArgName_def keyword_x c_ptr_def lookup_int
      is_FuncDecl_def)

lemma split_const_ref: "split ''const ref x : c_int'' '', '' = [''const ref x : c_int'']"
  by code_simp

lemma va_no: "\<not> va_list_match ''const ref x : c_int''"
  by code_simp


lemma getIntentInfo_uchar:
  assumes "is_PtrDecl ty" and "isPointerTo ty ''unsigned char'' = Inr True"
  shows "getIntentInfo ty = (case toChapelType ty of Inl e \<Rightarrow> Inl e | Inr r \<Rightarrow> Inr ([], r, r))"
  using assms by (cases ty) (auto simp: is_PtrDecl_def getIntentInfo_def keepsPointer_def split: sum.splits)

lemma getIntentInfo_nonptr:
  assumes "\<not> is_PtrDecl ty"
  shows "getIntentInfo ty = (case toChapelType ty of Inl e \<Rightarrow> Inl e | Inr r \<Rightarrow> Inr ([], r, Some []))"
  using assms by (cases ty) (auto simp: is_PtrDecl_def getIntentInfo_def split: sum.splits)

lemma isStructOrUnionType_ptr:
  assumes "is_PtrDecl ty" and "isStructOrUnionType n tds ty = Inr b"
  shows "\<not> b"
  using assms by (cases ty; cases n) (auto simp: is_PtrDecl_def is_StructOrUnion_def)

lemma computeArg_same:
  assumes "computeArg cfg tds i arg = Inr (f, p)"
    and "case type_attr arg of Inl e \<Rightarrow> True
         | Inr ty \<Rightarrow> \<not> is_PtrDecl ty \<or> isPointerTo ty ''unsigned char'' = Inr True"
  shows "p = f"
proof (cases "arg = EllipsisParam")
  case True
  with assms(1) show ?thesis by (auto simp: computeArg_def)
next
  case False
  with assms(1) obtain ty where ty: "type_attr arg = Inr ty"
    by (cases arg) (auto simp: computeArg_def split: sum.splits)
  show ?thesis
  proof (cases "is_PtrDecl ty")
    case True
    with assms(2) ty have uc: "isPointerTo ty ''unsigned char'' = Inr True" by simp
    have no_in: "\<And>b. isStructOrUnionType (depth cfg) tds ty = Inr b \<Longrightarrow> \<not> b"
      using isStructOrUnionType_ptr [OF True] by blast
    from assms(1) False ty show ?thesis
      by (cases arg)
         (auto simp: computeArg_def getIntentInfo_uchar [OF True uc] Let_def
               split: sum.splits option.splits if_splits dest: no_in)
  next
    case np: False
    from assms(1) False ty show ?thesis
      by (cases arg)
         (auto simp: computeArg_def getIntentInfo_nonptr [OF np] Let_def
               split: sum.splits option.splits if_splits)
  qed
qed

lemma computeFormals_same:
  "computeFormals cfg tds i params = Inr (fs, ps) \<Longrightarrow> pointersToUnsignedChar params \<Longrightarrow> ps = fs"
proof (induction params arbitrary: i fs ps)
  case Nil
  then show ?case by simp
next
  case (Cons a params)
  from Cons.prems(1) obtain f p fs' ps' where
    a: "computeArg cfg tds i a = Inr (f, p)" and
    r: "computeFormals cfg tds (Suc i) params = Inr (fs', ps')" and
    e: "fs = f @ fs'" "ps = p @ ps'"
    by (auto split: sum.splits)
  from Cons.prems(2) have ca: "case type_attr a of Inl e \<Rightarrow> True
         | Inr ty \<Rightarrow> \<not> is_PtrDecl ty \<or> isPointerTo ty ''unsigned char'' = Inr True"
    and cp: "pointersToUnsignedChar params"
    by (simp_all add: pointersToUnsignedChar_def)
  from computeArg_same [OF a ca] Cons.IH [OF r cp] e show ?case by simp
qed

lemma computeArgs_same:
  assumes "computeArgs cfg tds (Some params) = Inr (args, ptrArgs)" and "pointersToUnsignedChar params"
  shows "ptrArgs = args"
proof -
  from assms(1) obtain fs ps where c: "computeFormals cfg tds 0 params = Inr (fs, ps)"
    and e: "args = join '', '' fs" "ptrArgs = join '', '' ps"
    by (auto simp: computeArgs_def split: sum.splits)
  from computeFormals_same [OF c assms(2)] e show ?thesis by simp
qed

lemma split_from_nocomma: "CHR '','' \<notin> set x \<Longrightarrow> split_from '', '' cur x = [cur @ x]"
  by (induction x arbitrary: cur) auto

lemma split_from_sep:
  "CHR '','' \<notin> set x \<Longrightarrow> split_from '', '' cur (x @ '', '' @ rest) = (cur @ x) # split_from '', '' [] rest"
  by (induction x arbitrary: cur) auto

lemma split_join:
  "\<forall>x\<in>set xs. CHR '','' \<notin> set x \<Longrightarrow> xs \<noteq> [] \<Longrightarrow> split (join '', '' xs) '', '' = xs"
proof (induction "'', ''" xs rule: join.induct)
  case 1
  then show ?case by simp
next
  case (2 x)
  then show ?case by (simp add: split_def split_from_nocomma)
next
  case (3 x y ys)
  then show ?case
    unfolding split_def join.simps by (subst split_from_sep) auto
qed

lemma computeFormals_append:
  "computeFormals cfg tds i (xs @ ys) =
     (case computeFormals cfg tds i xs of
        Inl e \<Rightarrow> Inl e
      | Inr (f, p) \<Rightarrow>
          (case computeFormals cfg tds (i + length xs) ys of
             Inl e \<Rightarrow> Inl e
           | Inr (fs, ps) \<Rightarrow> Inr (f @ fs, p @ ps)))"
  by (induction xs arbitrary: i) (auto split: sum.splits)

lemma varargsOverload_variadic:
  assumes "\<forall>f\<in>set fs. CHR '','' \<notin> set f"
  shows "varargsOverload cfg fnName (join '', '' (fs @ [VARARGS_STR])) rt =
           genComment cfg ''Overload for empty varargs'' @ [extern_proc fnName (join '','' fs) rt]"
proof -
  have "\<forall>x\<in>set (fs @ [VARARGS_STR]). CHR '','' \<notin> set x"
    using assms by (simp add: VARARGS_STR_def)
  then have "split (join '', '' (fs @ [VARARGS_STR])) '', '' = fs @ [VARARGS_STR]"
    by (rule split_join) simp
  then show ?thesis by (simp add: varargsOverload_def)
qed


subsection \<open>The two overloads\<close>

lemma genFuncDecl_const_int_ptr:
  "genFuncDecl cfg tds
     (FuncDecl (Some [Decl (Some ''x'') (PtrDecl [] (TypeDecl (Some ''x'') [''const''] (IdentifierType [''int'']))) None])
        (TypeDecl (Some ''f'') [] (IdentifierType [''void''])))
   = Inr [''extern proc f(const ref x : c_int) : void;'' @ nl, ''extern proc f(x : c_ptrConst(c_int)) : void;'' @ nl]"
proof -
  have rt: "toChapelType (TypeDecl (Some ''f'') [] (IdentifierType [''void''])) = Inr (Some [])"
    by (simp add: getDeclName_def lookup_void)
  have fnn: "getFunctionName (TypeDecl (Some ''f'') [] (IdentifierType [''void''])) = Inr (Some ''f'')"
    by simp
  show ?thesis
    using genFuncDecl_emits [OF rt fnn computeArgs_const_int_ptr keyword_x(2) va_no, of cfg tds]
    by (simp add: varargsOverload_def split_const_ref VARARGS_STR_def extern_proc_def)
qed

text \<open>
  Claim C7: for \<^verbatim>\<open>void f(const int *x)\<close> the emitter prints two declarations of
  \<^verbatim>\<open>f\<close> and nothing else, the first with \<^verbatim>\<open>x\<close> as a \<^verbatim>\<open>const ref\<close> formal of the
  type \<^verbatim>\<open>c_int\<close> of the pointee, the second with \<^verbatim>\<open>x\<close> as the pointer
  \<^verbatim>\<open>c_ptrConst(c_int)\<close>. For every function that is printed (its name is no
  keyword and its formals hold no \<^verbatim>\<open>va_list\<close>), the declaration with the
  pointer-style formals follows the one with the reference-style formals exactly
  when the two lists of formals differ; what follows is the overload for the
  empty variadic list, if any. An empty return type is written \<^verbatim>\<open>void\<close>.
\<close>

theorem C7_two_overloads:
  assumes "toChapelType ftype = Inr (Some rt)"
    and "getFunctionName ftype = Inr (Some fnName)"
    and "computeArgs cfg tds fargs = Inr (args, ptrArgs)"
    and "fnName \<notin> chapelKeywords"
    and "\<not> va_list_match args"
  shows "genFuncDecl cfg tds (FuncDecl fargs ftype) =
           Inr ([extern_proc fnName args (if rt = [] then ''void'' else rt)]
                @ (if ptrArgs \<noteq> args then [extern_proc fnName ptrArgs (if rt = [] then ''void'' else rt)] else [])
                @ varargsOverload cfg fnName args (if rt = [] then ''void'' else rt))
         \<and> genFuncDecl cfg tds
              (FuncDecl (Some [Decl (Some ''x'')
                                 (PtrDecl [] (TypeDecl (Some ''x'') [''const''] (IdentifierType [''int''])))
                                 None])
                 (TypeDecl (Some ''f'') [] (IdentifierType [''void''])))
            = Inr [''extern proc f(const ref x : c_int) : void;'' @ nl,
                   ''extern proc f(x : c_ptrConst(c_int)) : void;'' @ nl]"
  using genFuncDecl_emits [OF assms] genFuncDecl_const_int_ptr by simp

theorem C7_two_overloads_witness:
  "toChapelType (TypeDecl (Some ''f'') [] (IdentifierType [''void''])) = Inr (Some [])
   \<and> getFunctionName (TypeDecl (Some ''f'') [] (IdentifierType [''void''])) = Inr (Some ''f'')
   \<and> computeArgs default_config []
        (Some [Decl (Some ''x'') (PtrDecl [] (TypeDecl (Some ''x'') [''const''] (IdentifierType [''int'']))) None])
      = Inr (''const ref x : c_int'', ''x : c_ptrConst(c_int)'')
   \<and> ''f'' \<notin> chapelKeywords
   \<and> \<not> va_list_match ''const ref x : c_int''
   \<and> genFuncDecl default_config []
        (FuncDecl (Some [Decl (Some ''x'')
                           (PtrDecl [] (TypeDecl (Some ''x'') [''const''] (IdentifierType [''int''])))
                           None])
           (TypeDecl (Some ''f'') [] (IdentifierType [''void''])))
      = Inr [extern_proc ''f'' ''const ref x : c_int'' ''void'',
             extern_proc ''f'' ''x : c_ptrConst(c_int)'' ''void'']"
proof -
  have rt: "toChapelType (TypeDecl (Some ''f'') [] (IdentifierType [''void''])) = Inr (Some [])"
    by (simp add: getDeclName_def lookup_void)
  have fnn: "getFunctionName (TypeDecl (Some ''f'') [] (IdentifierType [''void''])) = Inr (Some ''f'')"
    by simp
  have vo: "varargsOverload default_config ''f'' ''const ref x : c_int'' ''void'' = []"
    by (simp add: varargsOverload_def split_const_ref VARARGS_STR_def)
  show ?thesis
    using rt fnn computeArgs_const_int_ptr [of default_config "[]"] keyword_x(2) va_no
      C7_two_overloads [OF rt fnn computeArgs_const_int_ptr keyword_x(2) va_no, of default_config "[]"]
    by (simp add: vo)
qed

subsection \<open>The overload for the empty variadic list\<close>

lemma keyword_gh: "''g'' \<notin> chapelKeywords" "''h'' \<notin> chapelKeywords"
  by (simp_all add: chapelKeywords_def)

lemma keyword_abs: "''a'' \<notin> chapelKeywords" "''b'' \<notin> chapelKeywords" "''s'' \<notin> chapelKeywords"
    "''p'' \<notin> chapelKeywords" "''n'' \<notin> chapelKeywords"
  by (simp_all add: chapelKeywords_def)

lemma isStructOrUnionType_default_TypeDecl:
  "isStructOrUnionType (depth default_config) [] (TypeDecl d q (IdentifierType names)) = Inr False"
  by (simp add: default_config_def numeral_eq_Suc is_StructOrUnion_def)

lemma isStructOrUnionType_default_PtrDecl:
  "isStructOrUnionType (depth default_config) [] (PtrDecl q t) = Inr False"
  by (simp add: default_config_def numeral_eq_Suc is_StructOrUnion_def)

lemma computeFormals_two_ints:
  "computeFormals default_config [] 0
     [Decl (Some ''a'') (TypeDecl (Some ''a'') [] (IdentifierType [''int''])) None,
      Decl (Some ''b'') (TypeDecl (Some ''b'') [] (IdentifierType [''int''])) None]
   = Inr ([''a : c_int'', ''b : c_int''], [''a : c_int'', ''b : c_int''])"
  by (simp add: computeArg_def type_attr_def getIntentInfo_def getDeclName_def lookup_int
      computeArgName_def keyword_abs isStructOrUnionType_default_TypeDecl)

lemma va_no_two_ints: "\<not> va_list_match (join '', '' ([''a : c_int'', ''b : c_int''] @ [VARARGS_STR]))"
  by code_simp

text \<open>
  Claim C8: when the parameter list ends with the ellipsis and the function is
  printed, the last declaration printed is the overload without the variadic
  marker: the same name, the same return type, and the formals \<open>fs\<close> of the other
  parameters, in their order, with nothing in place of the marker. The
  declaration with the marker writes the formals separated by a comma and a
  blank, this overload writes them separated by a comma alone. The formals hold no
  comma, as C identifiers and the resolved type names do not. The overload is
  built from the reference-style formals; the comment line before it is printed
  unless comments are turned off.
\<close>

theorem C8_empty_varargs_overload:
  assumes "computeFormals cfg tds 0 ps = Inr (fs, pfs)"
    and "\<forall>f\<in>set fs. CHR '','' \<notin> set f"
    and "toChapelType ftype = Inr (Some rt)"
    and "getFunctionName ftype = Inr (Some fnName)"
    and "fnName \<notin> chapelKeywords"
    and "\<not> va_list_match (join '', '' (fs @ [VARARGS_STR]))"
  shows "genFuncDecl cfg tds (FuncDecl (Some (ps @ [EllipsisParam])) ftype) =
     Inr ([extern_proc fnName (join '', '' (fs @ [VARARGS_STR])) (if rt = [] then ''void'' else rt)]
          @ (if join '', '' (pfs @ [VARARGS_STR]) \<noteq> join '', '' (fs @ [VARARGS_STR])
             then [extern_proc fnName (join '', '' (pfs @ [VARARGS_STR])) (if rt = [] then ''void'' else rt)]
             else [])
          @ genComment cfg ''Overload for empty varargs''
          @ [extern_proc fnName (join '','' fs) (if rt = [] then ''void'' else rt)])"
proof -
  have "computeArgs cfg tds (Some (ps @ [EllipsisParam])) =
          Inr (join '', '' (fs @ [VARARGS_STR]), join '', '' (pfs @ [VARARGS_STR]))"
    using assms(1) by (simp add: computeArgs_def computeFormals_append computeArg_def)
  from genFuncDecl_emits [OF assms(3) assms(4) this assms(5) assms(6)]
  show ?thesis by (simp add: varargsOverload_variadic [OF assms(2)])
qed

theorem C8_empty_varargs_overload_witness:
  "computeFormals default_config [] 0
     [Decl (Some ''a'') (TypeDecl (Some ''a'') [] (IdentifierType [''int''])) None,
      Decl (Some ''b'') (TypeDecl (Some ''b'') [] (IdentifierType [''int''])) None]
     = Inr ([''a : c_int'', ''b : c_int''], [''a : c_int'', ''b : c_int''])
   \<and> list_all (\<lambda>f. CHR '','' \<notin> set f) [''a : c_int'', ''b : c_int'']
   \<and> toChapelType (TypeDecl (Some ''h'') [] (IdentifierType [''int''])) = Inr (Some ''c_int'')
   \<and> getFunctionName (TypeDecl (Some ''h'') [] (IdentifierType [''int''])) = Inr (Some ''h'')
   \<and> ''h'' \<notin> chapelKeywords
   \<and> \<not> va_list_match ''a : c_int, b : c_int, c__varargs ...''
   \<and> genFuncDecl default_config []
        (FuncDecl (Some [Decl (Some ''a'') (TypeDecl (Some ''a'') [] (IdentifierType [''int''])) None,
                         Decl (Some ''b'') (TypeDecl (Some ''b'') [] (IdentifierType [''int''])) None,
                         EllipsisParam])
           (TypeDecl (Some ''h'') [] (IdentifierType [''int''])))
      = Inr [''extern proc h(a : c_int, b : c_int, c__varargs ...) : c_int;'' @ nl,
             ''// Overload for empty varargs'',
             ''extern proc h(a : c_int,b : c_int) : c_int;'' @ nl]"
proof -
  have nc: "\<forall>f\<in>set [''a : c_int'', ''b : c_int'']. CHR '','' \<notin> set f"
    by simp
  have rt: "toChapelType (TypeDecl (Some ''h'') [] (IdentifierType [''int''])) = Inr (Some ''c_int'')"
    by (simp add: getDeclName_def lookup_int)
  have fnn: "getFunctionName (TypeDecl (Some ''h'') [] (IdentifierType [''int''])) = Inr (Some ''h'')"
    by simp
  have cm: "genComment default_config ''Overload for empty varargs'' = [''// Overload for empty varargs'']"
    by code_simp
  show ?thesis
    using computeFormals_two_ints rt fnn keyword_gh(2) va_no_two_ints
      C8_empty_varargs_overload [OF computeFormals_two_ints nc rt fnn keyword_gh(2) va_no_two_ints]
    by (simp add: cm VARARGS_STR_def extern_proc_def)
qed

subsection \<open>Pointers to unsigned char\<close>

lemma computeArgs_uchar_int:
  "computeArgs default_config []
     (Some [Decl (Some ''p'') (PtrDecl [] (TypeDecl (Some ''p'') [] (IdentifierType [''unsigned'', ''char'']))) None,
            Decl (Some ''n'') (TypeDecl (Some ''n'') [] (IdentifierType [''int''])) None])
   = Inr (''p : c_ptr(c_uchar), n : c_int'', ''p : c_ptr(c_uchar), n : c_int'')"
  by (simp add: computeArgs_def computeArg_def type_attr_def getIntentInfo_def keepsPointer_def
      isPointerTo_def getDeclName_def quals_def computeArgName_def keyword_abs c_ptr_def lookup_int
      lookup_uchar is_FuncDecl_def isStructOrUnionType_default_TypeDecl isStructOrUnionType_default_PtrDecl)

lemma split_uchar_int: "split ''p : c_ptr(c_uchar), n : c_int'' '', '' = [''p : c_ptr(c_uchar)'', ''n : c_int'']"
  by code_simp

lemma va_no_uchar_int: "\<not> va_list_match ''p : c_ptr(c_uchar), n : c_int''"
  by code_simp

text \<open>
  Claim C10: a parameter whose type is a pointer to \<^verbatim>\<open>unsigned char\<close> gets no
  reference intent: the type of its formal and its pointer type are both the
  pointer wrapper around \<^verbatim>\<open>c_uchar\<close> (\<^verbatim>\<open>c_ptr(c_uchar)\<close>, and \<^verbatim>\<open>c_ptrConst(c_uchar)\<close>
  when the pointee is \<^verbatim>\<open>const\<close>). For a function whose pointer parameters are all
  of this kind the reference-style and the pointer-style formals are the same
  text, and when the function is printed lines 349 to 354 print one declaration:
  nothing stands between it and the overload for the empty variadic list, which a
  function without ellipsis does not have.
\<close>

theorem C10_unsigned_char_pointer:
  assumes "pointersToUnsignedChar params"
    and "computeArgs cfg tds (Some params) = Inr (args, ptrArgs)"
    and "toChapelType ftype = Inr (Some rt)"
    and "getFunctionName ftype = Inr (Some fnName)"
    and "fnName \<notin> chapelKeywords"
    and "\<not> va_list_match args"
  shows "getIntentInfo (PtrDecl q (TypeDecl d qs (IdentifierType [''unsigned'', ''char''])))
           = Inr ([], Some (c_ptr qs ''c_uchar''), Some (c_ptr qs ''c_uchar''))
         \<and> ptrArgs = args
         \<and> genFuncDecl cfg tds (FuncDecl (Some params) ftype) =
             Inr (extern_proc fnName args (if rt = [] then ''void'' else rt)
                  # varargsOverload cfg fnName args (if rt = [] then ''void'' else rt))"
proof (intro conjI)
  show "getIntentInfo (PtrDecl q (TypeDecl d qs (IdentifierType [''unsigned'', ''char''])))
           = Inr ([], Some (c_ptr qs ''c_uchar''), Some (c_ptr qs ''c_uchar''))"
    by (simp add: getIntentInfo_def keepsPointer_def isPointerTo_def getDeclName_def quals_def
        is_FuncDecl_def lookup_uchar)
next
  show same: "ptrArgs = args"
    using computeArgs_same [OF assms(2) assms(1)] .
  from genFuncDecl_emits [OF assms(3) assms(4) assms(2) assms(5) assms(6)] same
  show "genFuncDecl cfg tds (FuncDecl (Some params) ftype) =
             Inr (extern_proc fnName args (if rt = [] then ''void'' else rt)
                  # varargsOverload cfg fnName args (if rt = [] then ''void'' else rt))"
    by simp
qed

theorem C10_unsigned_char_pointer_witness:
  "pointersToUnsignedChar
     [Decl (Some ''p'') (PtrDecl [] (TypeDecl (Some ''p'') [] (IdentifierType [''unsigned'', ''char'']))) None,
      Decl (Some ''n'') (TypeDecl (Some ''n'') [] (IdentifierType [''int''])) None]
   \<and> computeArgs default_config []
        (Some [Decl (Some ''p'') (PtrDecl [] (TypeDecl (Some ''p'') [] (IdentifierType [''unsigned'', ''char'']))) None,
               Decl (Some ''n'') (TypeDecl (Some ''n'') [] (IdentifierType [''int''])) None])
      = Inr (''p : c_ptr(c_uchar), n : c_int'', ''p : c_ptr(c_uchar), n : c_int'')
   \<and> toChapelType (TypeDecl (Some ''g'') [] (IdentifierType [''void''])) = Inr (Some [])
   \<and> getFunctionName (TypeDecl (Some ''g'') [] (IdentifierType [''void''])) = Inr (Some ''g'')
   \<and> ''g'' \<notin> chapelKeywords
   \<and> \<not> va_list_match ''p : c_ptr(c_uchar), n : c_int''
   \<and> genFuncDecl default_config []
        (FuncDecl (Some [Decl (Some ''p'') (PtrDecl [] (TypeDecl (Some ''p'') [] (IdentifierType [''unsigned'', ''char'']))) None,
                         Decl (Some ''n'') (TypeDecl (Some ''n'') [] (IdentifierType [''int''])) None])
           (TypeDecl (Some ''g'') [] (IdentifierType [''void''])))
      = Inr [''extern proc g(p : c_ptr(c_uchar), n : c_int) : void;'' @ nl]"
proof -
  have pk: "pointersToUnsignedChar
     [Decl (Some ''p'') (PtrDecl [] (TypeDecl (Some ''p'') [] (IdentifierType [''unsigned'', ''char'']))) None,
      Decl (Some ''n'') (TypeDecl (Some ''n'') [] (IdentifierType [''int''])) None]"
    by (simp add: pointersToUnsignedChar_def type_attr_def is_PtrDecl_def isPointerTo_def getDeclName_def)
  have rt: "toChapelType (TypeDecl (Some ''g'') [] (IdentifierType [''void''])) = Inr (Some [])"
    by (simp add: getDeclName_def lookup_void)
  have fnn: "getFunctionName (TypeDecl (Some ''g'') [] (IdentifierType [''void''])) = Inr (Some ''g'')"
    by simp
  have vo: "varargsOverload default_config ''g'' ''p : c_ptr(c_uchar), n : c_int'' ''void'' = []"
    by (simp add: varargsOverload_def split_uchar_int VARARGS_STR_def)
  show ?thesis
    using pk computeArgs_uchar_int rt fnn keyword_gh(1) va_no_uchar_int
      C10_unsigned_char_pointer [OF pk computeArgs_uchar_int rt fnn keyword_gh(1) va_no_uchar_int]
    by (simp add: vo extern_proc_def)
qed

section \<open>Structs, unions and global variables\<close>

declare genStructOrUnion.simps [simp del]

lemma genMembers_prefix:
  assumes "list_all (\<lambda>d. resolvedField d \<noteq> None) pre"
    and "genMembers cfg tds found (pre @ rest) members = Inr (out, found', m, wk, ws)"
  shows "\<exists>out1 found1 out2.
           genMembers cfg tds found1 rest (members @ concat (map fieldText pre)) = Inr (out2, found', m, wk, ws)
           \<and> out = out1 @ out2"
  using assms
proof (induction pre arbitrary: found members out)
  case Nil
  then show ?case by auto
next
  case (Cons d pre)
  from Cons.prems(1) obtain f ct where r: "resolvedField d = Some (f, ct)"
    and rest: "list_all (\<lambda>d. resolvedField d \<noteq> None) pre"
    by auto
  from r have d: "d \<noteq> Pragma" "getDeclName d = Inr (Some f)" "f \<notin> chapelKeywords"
    and "\<exists>ty. type_attr d = Inr ty \<and> toChapelType ty = Inr (Some ct)"
    by (auto simp: resolvedField_def split: if_splits sum.splits option.splits)
  then obtain ty where ty: "type_attr d = Inr ty" "toChapelType ty = Inr (Some ct)"
    by blast
  from Cons.prems(2) d ty obtain o1 f1 o2 where
    step: "genMembers cfg tds f1 (pre @ rest) ((members @ fieldLine f ct)) = Inr (o2, found', m, wk, ws)"
    and out: "out = o1 @ o2"
    by (auto split: sum.splits option.splits)
  from Cons.IH [OF rest step] obtain out1 found1 out2 where
    a: "genMembers cfg tds found1 rest ((members @ fieldLine f ct) @ concat (map fieldText pre))
       = Inr (out2, found', m, wk, ws)" and b: "o2 = out1 @ out2"
    by blast
  from r have "members @ concat (map fieldText (d # pre))
      = (members @ fieldLine f ct) @ concat (map fieldText pre)"
    by (simp add: fieldText_def)
  with a have "genMembers cfg tds found1 rest (members @ concat (map fieldText (d # pre)))
       = Inr (out2, found', m, wk, ws)"
    by simp
  moreover from out b have "out = (o1 @ out1) @ out2"
    by simp
  ultimately show ?case by blast
qed

lemma genMembers_unresolved:
  assumes "unresolvedField bad"
    and "genMembers cfg tds found (bad # post) members = Inr (out, found', m, wk, ws)"
  shows "m = members \<and> \<not> wk \<and> ws"
  using assms
  by (auto simp: unresolvedField_def split: sum.splits option.splits if_splits)

lemma genMembers_keyword:
  assumes "keywordField bad"
    and "genMembers cfg tds found (bad # post) members = Inr (out, found', m, wk, ws)"
  shows "m = [] \<and> wk \<and> \<not> ws"
  using assms
  by (auto simp: keywordField_def split: sum.splits option.splits if_splits)

lemma not_forward:
  assumes "structOrUnionParts node = Some (sname, Some decls, u)" and "decls \<noteq> []"
    and "isStructOrUnionForwardDeclared cfg tds node = Inr b"
  shows "\<not> b"
  using assms by (auto simp: isStructOrUnionForwardDeclared_def split: sum.splits bool.splits)

lemma genStructOrUnion_definition:
  assumes "structOrUnionParts node = Some (sname, Some decls, u)"
    and "(if name0 = [] then sname else Some name0) = Some name"
    and "name \<notin> chapelKeywords"
    and "decls \<noteq> []"
    and "genStructOrUnion cfg tds found node name0 isAnon = Inr (out, found')"
  shows "\<exists>nested m wk ws.
           genMembers cfg tds (insert name found) decls [] = Inr (nested, found', m, wk, ws)
           \<and> out = nested
               @ (if wk then genComment cfg
                    ''Fields omitted because one or more of the identifiers is a Chapel keyword'' else [])
               @ (if ws then genComment cfg
                    ''Anonymous union or struct was encountered within and skipped.'' else [])
               @ [structHeader isAnon u name @ (if m \<noteq> [] then nl @ m else m) @ ''}'' @ nl]"
proof -
  have "\<exists>b. isStructOrUnionForwardDeclared cfg tds node = Inr b"
  proof (cases "isStructOrUnionForwardDeclared cfg tds node")
    case (Inl e)
    with assms(5) show ?thesis
      by (subst (asm) genStructOrUnion.simps) (simp add: assms(1-3))
  next
    case (Inr b)
    then show ?thesis by blast
  qed
  then obtain b where b: "isStructOrUnionForwardDeclared cfg tds node = Inr b"
    by blast
  from not_forward [OF assms(1) assms(4) b] b
  have fw: "isStructOrUnionForwardDeclared cfg tds node = Inr False"
    by simp
  have "\<exists>r. genMembers cfg tds (insert name found) decls [] = Inr r"
  proof (cases "genMembers cfg tds (insert name found) decls []")
    case (Inl e)
    with assms(5) show ?thesis
      by (subst (asm) genStructOrUnion.simps) (simp add: assms(1-3) fw)
  next
    case (Inr r)
    then show ?thesis by blast
  qed
  then obtain r where r: "genMembers cfg tds (insert name found) decls [] = Inr r"
    by blast
  obtain nested f' m wk ws where rr: "r = (nested, f', m, wk, ws)"
    by (cases r) auto
  from assms(5) r rr show ?thesis
    by (subst (asm) genStructOrUnion.simps) (simp add: assms(1-3) fw)
qed


subsection \<open>Three structs, evaluated\<close>

declare genMembers.simps [simp del]

lemma comment_anonymous:
  "genComment default_config ''Anonymous union or struct was encountered within and skipped.''
     = [''// Anonymous union or struct was encountered within and skipped.'']"
  by code_simp

lemma comment_omitted:
  "genComment default_config ''Fields omitted because one or more of the identifiers is a Chapel keyword''
     = [''// Fields omitted because one or more of the identifiers is a Chapel keyword'']"
  by code_simp

lemma keyword_type: "''type'' \<in> chapelKeywords"
  by (simp add: chapelKeywords_def)

lemma keyword_S: "''S'' \<notin> chapelKeywords" "''c'' \<notin> chapelKeywords" "''x'' \<notin> chapelKeywords"
  by (simp_all add: chapelKeywords_def)

lemma forward_default:
  "isStructOrUnionForwardDeclared default_config tds (Struct n (Some (d # ds))) = Inr False"
  by (simp add: isStructOrUnionForwardDeclared_def default_config_def numeral_eq_Suc
      is_StructOrUnion_def structOrUnionParts_def)

lemma resolved_intField: "n \<notin> chapelKeywords \<Longrightarrow> resolvedField (intField n) = Some (n, ''c_int'')"
  by (simp add: resolvedField_def intField_def getDeclName_def type_attr_def lookup_int)

lemma unresolved_anonStructField: "n \<notin> chapelKeywords \<Longrightarrow> unresolvedField (anonStructField n)"
  by (simp add: unresolvedField_def anonStructField_def getDeclName_def type_attr_def)

lemma keyword_intField: "n \<in> chapelKeywords \<Longrightarrow> keywordField (intField n)"
  by (simp add: keywordField_def intField_def getDeclName_def)

lemma genMembers_intField:
  "n \<notin> chapelKeywords \<Longrightarrow>
   genMembers cfg tds found (intField n # ds) members =
     (case genMembers cfg tds found ds (members @ fieldLine n ''c_int'') of
        Inl e \<Rightarrow> Inl e
      | Inr (out2, found2, members2, wk, ws) \<Rightarrow> Inr (out2, found2, members2, wk, ws))"
  by (simp add: genMembers.simps intField_def getDeclName_def type_attr_def lookup_int split: sum.split)

lemma genMembers_keyword_intField:
  "n \<in> chapelKeywords \<Longrightarrow>
   genMembers cfg tds found (intField n # ds) members = Inr ([], found, [], True, False)"
  by (simp add: genMembers.simps intField_def getDeclName_def)

lemma genMembers_anonStructField:
  "n \<notin> chapelKeywords \<Longrightarrow>
   genMembers cfg tds found (anonStructField n # ds) members = Inr ([], found, members, False, True)"
  by (simp add: genMembers.simps anonStructField_def intField_def getDeclName_def type_attr_def
      genStructOrUnion.simps structOrUnionParts_def)

lemma struct_anonymous_member:
  "genStructOrUnion default_config [] {}
     (Struct (Some ''S'') (Some [intField ''a'', anonStructField ''b'', intField ''c''])) [] False
   = Inr ([''// Anonymous union or struct was encountered within and skipped.'',
           ''extern '' @ dq @ ''struct S'' @ dq @ '' record S {'' @ nl @ ''  var a : c_int;'' @ nl @ ''}'' @ nl],
          {''S''})"
  by (subst genStructOrUnion.simps)
     (simp add: structOrUnionParts_def keyword_S forward_default genMembers_intField
        genMembers_anonStructField keyword_abs comment_anonymous structHeader_def fieldLine_def)

lemma struct_anonymous_before_keyword:
  "genStructOrUnion default_config [] {}
     (Struct (Some ''S'') (Some [intField ''a'', anonStructField ''b'', intField ''type''])) [] False
   = Inr ([''// Anonymous union or struct was encountered within and skipped.'',
           ''extern '' @ dq @ ''struct S'' @ dq @ '' record S {'' @ nl @ ''  var a : c_int;'' @ nl @ ''}'' @ nl],
          {''S''})"
  by (subst genStructOrUnion.simps)
     (simp add: structOrUnionParts_def keyword_S forward_default genMembers_intField
        genMembers_anonStructField keyword_abs comment_anonymous structHeader_def fieldLine_def)

lemma struct_keyword_member:
  "genStructOrUnion default_config [] {}
     (Struct (Some ''S'') (Some [intField ''a'', intField ''type'', intField ''c''])) [] False
   = Inr ([''// Fields omitted because one or more of the identifiers is a Chapel keyword'',
           ''extern '' @ dq @ ''struct S'' @ dq @ '' record S {}'' @ nl],
          {''S''})"
  by (subst genStructOrUnion.simps)
     (simp add: structOrUnionParts_def keyword_S forward_default genMembers_intField
        genMembers_keyword_intField keyword_type keyword_abs comment_omitted structHeader_def)

subsection \<open>A member whose type does not resolve\<close>

text \<open>
  Claim C1, as stated, fails: in \<^verbatim>\<open>struct S { int a; struct { int x; } b; int c; }\<close>
  the type of \<^verbatim>\<open>b\<close> does not resolve, and the struct is still printed, with the
  member \<^verbatim>\<open>a\<close> and without \<^verbatim>\<open>c\<close>: a declaration with a partial member list.
\<close>

theorem C1_partial_fields_counterexample:
  "genStructOrUnion default_config [] {}
     (Struct (Some ''S'') (Some [intField ''a'', anonStructField ''b'', intField ''c''])) [] False
   = Inr ([''// Anonymous union or struct was encountered within and skipped.'',
           ''extern '' @ dq @ ''struct S'' @ dq @ '' record S {'' @ nl @ ''  var a : c_int;'' @ nl @ ''}'' @ nl],
          {''S''})
   \<and> unresolvedField (anonStructField ''b'')"
  using struct_anonymous_member unresolved_anonStructField [OF keyword_abs(2)] by simp

text \<open>
  Claim C1, amended: when the loop over the members of a struct or union
  definition reaches a member whose type does not resolve (every member before it
  resolves), the loop stops there. The aggregate is still printed, after the
  diagnostic comment (no comment with \<^verbatim>\<open>--no-comments\<close>): its body holds the lines
  of the members before that one and none of the later members. \<open>nested\<close> is what
  the definitions nested in the members printed before.
\<close>

theorem C1_unresolved_member:
  assumes "structOrUnionParts node = Some (sname, Some (pre @ bad # post), u)"
    and "(if name0 = [] then sname else Some name0) = Some name"
    and "name \<notin> chapelKeywords"
    and "list_all (\<lambda>d. resolvedField d \<noteq> None) pre"
    and "unresolvedField bad"
    and "genStructOrUnion cfg tds found node name0 isAnon = Inr (out, found')"
  shows "\<exists>nested. out = nested
           @ genComment cfg ''Anonymous union or struct was encountered within and skipped.''
           @ [structHeader isAnon u name
              @ (if pre = [] then [] else nl @ concat (map fieldText pre)) @ ''}'' @ nl]"
proof -
  from genStructOrUnion_definition [OF assms(1) assms(2) assms(3) _ assms(6)]
  obtain nested m wk ws where
    g: "genMembers cfg tds (insert name found) (pre @ bad # post) [] = Inr (nested, found', m, wk, ws)"
    and o: "out = nested
               @ (if wk then genComment cfg
                    ''Fields omitted because one or more of the identifiers is a Chapel keyword'' else [])
               @ (if ws then genComment cfg
                    ''Anonymous union or struct was encountered within and skipped.'' else [])
               @ [structHeader isAnon u name @ (if m \<noteq> [] then nl @ m else m) @ ''}'' @ nl]"
    by auto
  from genMembers_prefix [OF assms(4) g] obtain out1 found1 out2 where
    "genMembers cfg tds found1 (bad # post) ([] @ concat (map fieldText pre)) = Inr (out2, found', m, wk, ws)"
    by blast
  from genMembers_unresolved [OF assms(5) this] have m: "m = concat (map fieldText pre)" "\<not> wk" "ws"
    by simp_all
  have ne: "pre \<noteq> [] \<Longrightarrow> concat (map fieldText pre) \<noteq> []"
    using assms(4)
    by (cases pre) (auto simp: fieldText_def fieldLine_def)
  from o m ne have "out = nested
           @ genComment cfg ''Anonymous union or struct was encountered within and skipped.''
           @ [structHeader isAnon u name
              @ (if pre = [] then [] else nl @ concat (map fieldText pre)) @ ''}'' @ nl]"
    by (cases "pre = []") simp_all
  then show ?thesis by blast
qed

theorem C1_unresolved_member_witness:
  "structOrUnionParts (Struct (Some ''S'') (Some ([intField ''a''] @ anonStructField ''b'' # [intField ''c''])))
     = Some (Some ''S'', Some ([intField ''a''] @ anonStructField ''b'' # [intField ''c'']), False)
   \<and> ''S'' \<notin> chapelKeywords
   \<and> list_all (\<lambda>d. resolvedField d \<noteq> None) [intField ''a'']
   \<and> unresolvedField (anonStructField ''b'')
   \<and> genStructOrUnion default_config [] {}
        (Struct (Some ''S'') (Some ([intField ''a''] @ anonStructField ''b'' # [intField ''c'']))) [] False
      = Inr ([''// Anonymous union or struct was encountered within and skipped.'',
              ''extern '' @ dq @ ''struct S'' @ dq @ '' record S {'' @ nl @ ''  var a : c_int;'' @ nl @ ''}'' @ nl],
             {''S''})
   \<and> (\<exists>nested.
         [''// Anonymous union or struct was encountered within and skipped.'',
          ''extern '' @ dq @ ''struct S'' @ dq @ '' record S {'' @ nl @ ''  var a : c_int;'' @ nl @ ''}'' @ nl]
         = nested
           @ genComment default_config ''Anonymous union or struct was encountered within and skipped.''
           @ [structHeader False False ''S''
              @ (if [intField ''a''] = [] then [] else nl @ concat (map fieldText [intField ''a''])) @ ''}'' @ nl])"
proof -
  have p: "structOrUnionParts (Struct (Some ''S'') (Some ([intField ''a''] @ anonStructField ''b'' # [intField ''c''])))
     = Some (Some ''S'', Some ([intField ''a''] @ anonStructField ''b'' # [intField ''c'']), False)"
    by (simp add: structOrUnionParts_def)
  have n: "(if ([]::string) = [] then Some ''S'' else Some []) = Some ''S''"
    by simp
  have r: "list_all (\<lambda>d. resolvedField d \<noteq> None) [intField ''a'']"
    by (simp add: resolved_intField keyword_abs)
  have u: "unresolvedField (anonStructField ''b'')"
    by (rule unresolved_anonStructField [OF keyword_abs(2)])
  have g: "genStructOrUnion default_config [] {}
        (Struct (Some ''S'') (Some ([intField ''a''] @ anonStructField ''b'' # [intField ''c'']))) [] False
      = Inr ([''// Anonymous union or struct was encountered within and skipped.'',
              ''extern '' @ dq @ ''struct S'' @ dq @ '' record S {'' @ nl @ ''  var a : c_int;'' @ nl @ ''}'' @ nl],
             {''S''})"
    using struct_anonymous_member by simp
  from C1_unresolved_member [OF p n keyword_S(1) r u g] p r u g keyword_S(1)
  show ?thesis by simp
qed

subsection \<open>A member whose name is a keyword\<close>

text \<open>
  Claim C5, as stated, fails: in
  \<^verbatim>\<open>struct S { int a; struct { int x; } b; int type; }\<close> the name of the member
  \<^verbatim>\<open>type\<close> is a keyword, and the struct is printed with the member \<^verbatim>\<open>a\<close> in its body:
  the loop stops at \<^verbatim>\<open>b\<close>, whose type does not resolve, before it reaches \<^verbatim>\<open>type\<close>.
\<close>

theorem C5_partial_body_counterexample:
  "keywordField (intField ''type'')
   \<and> genStructOrUnion default_config [] {}
       (Struct (Some ''S'') (Some [intField ''a'', anonStructField ''b'', intField ''type''])) [] False
     = Inr ([''// Anonymous union or struct was encountered within and skipped.'',
             ''extern '' @ dq @ ''struct S'' @ dq @ '' record S {'' @ nl @ ''  var a : c_int;'' @ nl @ ''}'' @ nl],
            {''S''})"
  using struct_anonymous_before_keyword keyword_intField [OF keyword_type] by simp

text \<open>
  Claim C5, amended: when the loop over the members of a struct or union
  definition reaches a member whose name is a keyword (every member before it
  resolves), the whole member list is dropped: the aggregate is printed with an
  empty body, after the diagnostic comment (no comment with \<^verbatim>\<open>--no-comments\<close>).
  \<open>nested\<close> is what the definitions nested in the members printed before.
\<close>

theorem C5_keyword_member:
  assumes "structOrUnionParts node = Some (sname, Some (pre @ bad # post), u)"
    and "(if name0 = [] then sname else Some name0) = Some name"
    and "name \<notin> chapelKeywords"
    and "list_all (\<lambda>d. resolvedField d \<noteq> None) pre"
    and "keywordField bad"
    and "genStructOrUnion cfg tds found node name0 isAnon = Inr (out, found')"
  shows "\<exists>nested. out = nested
           @ genComment cfg ''Fields omitted because one or more of the identifiers is a Chapel keyword''
           @ [structHeader isAnon u name @ ''}'' @ nl]"
proof -
  from genStructOrUnion_definition [OF assms(1) assms(2) assms(3) _ assms(6)]
  obtain nested m wk ws where
    g: "genMembers cfg tds (insert name found) (pre @ bad # post) [] = Inr (nested, found', m, wk, ws)"
    and o: "out = nested
               @ (if wk then genComment cfg
                    ''Fields omitted because one or more of the identifiers is a Chapel keyword'' else [])
               @ (if ws then genComment cfg
                    ''Anonymous union or struct was encountered within and skipped.'' else [])
               @ [structHeader isAnon u name @ (if m \<noteq> [] then nl @ m else m) @ ''}'' @ nl]"
    by auto
  from genMembers_prefix [OF assms(4) g] obtain out1 found1 out2 where
    "genMembers cfg tds found1 (bad # post) ([] @ concat (map fieldText pre)) = Inr (out2, found', m, wk, ws)"
    by blast
  from genMembers_keyword [OF assms(5) this] have m: "m = []" "wk" "\<not> ws"
    by simp_all
  from o m have "out = nested
           @ genComment cfg ''Fields omitted because one or more of the identifiers is a Chapel keyword''
           @ [structHeader isAnon u name @ ''}'' @ nl]"
    by simp
  then show ?thesis by blast
qed

theorem C5_keyword_member_witness:
  "structOrUnionParts (Struct (Some ''S'') (Some ([intField ''a''] @ intField ''type'' # [intField ''c''])))
     = Some (Some ''S'', Some ([intField ''a''] @ intField ''type'' # [intField ''c'']), False)
   \<and> ''S'' \<notin> chapelKeywords
   \<and> list_all (\<lambda>d. resolvedField d \<noteq> None) [intField ''a'']
   \<and> keywordField (intField ''type'')
   \<and> genStructOrUnion default_config [] {}
        (Struct (Some ''S'') (Some ([intField ''a''] @ intField ''type'' # [intField ''c'']))) [] False
      = Inr ([''// Fields omitted because one or more of the identifiers is a Chapel keyword'',
              ''extern '' @ dq @ ''struct S'' @ dq @ '' record S {}'' @ nl],
             {''S''})
   \<and> (\<exists>nested.
         [''// Fields omitted because one or more of the identifiers is a Chapel keyword'',
          ''extern '' @ dq @ ''struct S'' @ dq @ '' record S {}'' @ nl]
         = nested
           @ genComment default_config
               ''Fields omitted because one or more of the identifiers is a Chapel keyword''
           @ [structHeader False False ''S'' @ ''}'' @ nl])"
proof -
  have p: "structOrUnionParts (Struct (Some ''S'') (Some ([intField ''a''] @ intField ''type'' # [intField ''c''])))
     = Some (Some ''S'', Some ([intField ''a''] @ intField ''type'' # [intField ''c'']), False)"
    by (simp add: structOrUnionParts_def)
  have n: "(if ([]::string) = [] then Some ''S'' else Some []) = Some ''S''"
    by simp
  have r: "list_all (\<lambda>d. resolvedField d \<noteq> None) [intField ''a'']"
    by (simp add: resolved_intField keyword_abs)
  have k: "keywordField (intField ''type'')"
    by (rule keyword_intField [OF keyword_type])
  have g: "genStructOrUnion default_config [] {}
        (Struct (Some ''S'') (Some ([intField ''a''] @ intField ''type'' # [intField ''c'']))) [] False
      = Inr ([''// Fields omitted because one or more of the identifiers is a Chapel keyword'',
              ''extern '' @ dq @ ''struct S'' @ dq @ '' record S {}'' @ nl],
             {''S''})"
    using struct_keyword_member by simp
  from C5_keyword_member [OF p n keyword_S(1) r k g] p r k g keyword_S(1)
  show ?thesis by simp
qed

subsection \<open>Names that are keywords\<close>

lemma genVar_type: "genVar (intField ''type'') = Inr [''extern var c2chapel_type : c_int;'', []]"
  by (simp add: genVar_def intField_def keyword_type getDeclName_def lookup_int)

text \<open>
  Claim C2, as stated, fails for a global variable: \<^verbatim>\<open>int type;\<close> is printed, under
  the name \<^verbatim>\<open>c2chapel_type\<close>, and no diagnostic is printed.
\<close>

theorem C2_global_variable_counterexample:
  "''type'' \<in> chapelKeywords
   \<and> genVar (Decl (Some ''type'') (TypeDecl (Some ''type'') [] (IdentifierType [''int''])) None)
     = Inr [''extern var c2chapel_type : c_int;'', []]"
  using genVar_type keyword_type by (simp add: intField_def)

text \<open>
  Claim C2, amended: for a name that is a keyword, a function of that name is not
  printed and a struct or union of that name is not printed, each leaving the
  diagnostic comment (no comment with \<^verbatim>\<open>--no-comments\<close>) and an empty line; a
  member of that name empties the member list of its aggregate and sets the
  warning of the loop (claim C5); a global variable of that name is printed under
  the name with the prefix \<^verbatim>\<open>c2chapel_\<close>, without a diagnostic.
\<close>

theorem C2_reserved_names:
  assumes "name \<in> chapelKeywords"
  shows "(toChapelType ftype = Inr rt \<and> getFunctionName ftype = Inr (Some name)
          \<and> computeArgs cfg tds fargs = Inr (args, ptrArgs)
          \<longrightarrow> genFuncDecl cfg tds (FuncDecl fargs ftype) =
                Inr (genComment cfg (''Unable to generate function '' @ sq @ name @ sq
                                     @ '' because its name is a Chapel keyword'') @ [[]]))
       \<and> (structOrUnionParts node = Some (sname, sdecls, u)
          \<and> (if name0 = [] then sname else Some name0) = Some name
          \<longrightarrow> genStructOrUnion cfg tds found node name0 isAnon =
                Inr (genComment cfg (''Unable to generate ''
                                     @ (if u \<and> sdecls \<noteq> None then ''union'' else ''struct'')
                                     @ '' '' @ sq @ name @ sq @ '' because its name is a Chapel keyword'')
                     @ [[]], found))
       \<and> (toChapelType t = Inr (Some ty)
          \<longrightarrow> genVar (Decl (Some name) t i) = Inr [''extern var c2chapel_'' @ name @ '' : '' @ ty @ '';'', []])
       \<and> (decl \<noteq> Pragma \<and> getDeclName decl = Inr (Some name)
          \<and> genMembers cfg tds found (decl # post) members = Inr (out, found', m, wk, ws)
          \<longrightarrow> m = [] \<and> wk \<and> \<not> ws)"
proof (intro conjI impI)
  assume "toChapelType ftype = Inr rt \<and> getFunctionName ftype = Inr (Some name)
          \<and> computeArgs cfg tds fargs = Inr (args, ptrArgs)"
  with assms show "genFuncDecl cfg tds (FuncDecl fargs ftype) =
                Inr (genComment cfg (''Unable to generate function '' @ sq @ name @ sq
                                     @ '' because its name is a Chapel keyword'') @ [[]])"
    by (simp add: genFuncDecl_def)
next
  assume "structOrUnionParts node = Some (sname, sdecls, u)
          \<and> (if name0 = [] then sname else Some name0) = Some name"
  with assms show "genStructOrUnion cfg tds found node name0 isAnon =
                Inr (genComment cfg (''Unable to generate ''
                                     @ (if u \<and> sdecls \<noteq> None then ''union'' else ''struct'')
                                     @ '' '' @ sq @ name @ sq @ '' because its name is a Chapel keyword'')
                     @ [[]], found)"
    by (subst genStructOrUnion.simps) simp
next
  assume "toChapelType t = Inr (Some ty)"
  with assms show "genVar (Decl (Some name) t i) = Inr [''extern var c2chapel_'' @ name @ '' : '' @ ty @ '';'', []]"
    by (simp add: genVar_def)
next
  assume h: "decl \<noteq> Pragma \<and> getDeclName decl = Inr (Some name)
          \<and> genMembers cfg tds found (decl # post) members = Inr (out, found', m, wk, ws)"
  with assms have k: "keywordField decl"
    by (simp add: keywordField_def)
  from h have g: "genMembers cfg tds found (decl # post) members = Inr (out, found', m, wk, ws)"
    by blast
  from genMembers_keyword [OF k g] show "m = []" and "wk" and "\<not> ws"
    by simp_all
qed

lemma computeArgs_void:
  "computeArgs cfg tds (Some [Typename (TypeDecl None [] (IdentifierType [''void'']))]) = Inr ([], [])"
  by (simp add: computeArgs_def computeArg_def type_attr_def getIntentInfo_def getDeclName_def
      lookup_void computeArgName_def)

lemma comment_function_type:
  "genComment default_config (''Unable to generate function '' @ sq @ ''type'' @ sq
                              @ '' because its name is a Chapel keyword'')
   = [''// Unable to generate function '' @ sq @ ''type'' @ sq @ '' because its name is a Chapel keyword'']"
  by code_simp

lemma comment_union_type:
  "genComment default_config (''Unable to generate union '' @ sq @ ''type'' @ sq
                              @ '' because its name is a Chapel keyword'')
   = [''// Unable to generate union '' @ sq @ ''type'' @ sq @ '' because its name is a Chapel keyword'']"
  by code_simp

theorem C2_reserved_names_witness:
  "''type'' \<in> chapelKeywords
   \<and> genFuncDecl default_config []
        (FuncDecl (Some [Typename (TypeDecl None [] (IdentifierType [''void'']))])
           (TypeDecl (Some ''type'') [] (IdentifierType [''int''])))
      = Inr [''// Unable to generate function '' @ sq @ ''type'' @ sq @ '' because its name is a Chapel keyword'', []]
   \<and> genStructOrUnion default_config [] {} (Union (Some ''type'') (Some [intField ''a''])) [] False
      = Inr ([''// Unable to generate union '' @ sq @ ''type'' @ sq @ '' because its name is a Chapel keyword'', []],
             {})
   \<and> genVar (Decl (Some ''type'') (TypeDecl (Some ''type'') [] (IdentifierType [''int''])) None)
      = Inr [''extern var c2chapel_type : c_int;'', []]
   \<and> genMembers default_config [] {} (intField ''type'' # [intField ''a'']) []
      = Inr ([], {}, [], True, False)"
proof -
  have rt: "toChapelType (TypeDecl (Some ''type'') [] (IdentifierType [''int''])) = Inr (Some ''c_int'')"
    by (simp add: getDeclName_def lookup_int)
  have fnn: "getFunctionName (TypeDecl (Some ''type'') [] (IdentifierType [''int''])) = Inr (Some ''type'')"
    by simp
  have su: "structOrUnionParts (Union (Some ''type'') (Some [intField ''a'']))
              = Some (Some ''type'', Some [intField ''a''], True)"
    by (simp add: structOrUnionParts_def)
  have np: "intField ''type'' \<noteq> Pragma"
    by (simp add: intField_def)
  have dn: "getDeclName (intField ''type'') = Inr (Some ''type'')"
    by (simp add: intField_def getDeclName_def)
  have gm: "genMembers default_config [] {} (intField ''type'' # [intField ''a'']) []
      = Inr ([], {}, [], True, False)"
    by (rule genMembers_keyword_intField [OF keyword_type])
  note T = C2_reserved_names [OF keyword_type]
  have f: "genFuncDecl default_config []
        (FuncDecl (Some [Typename (TypeDecl None [] (IdentifierType [''void'']))])
           (TypeDecl (Some ''type'') [] (IdentifierType [''int''])))
      = Inr (genComment default_config (''Unable to generate function '' @ sq @ ''type'' @ sq
                                        @ '' because its name is a Chapel keyword'') @ [[]])"
    by (rule T [THEN conjunct1, THEN mp]) (rule conjI, rule rt, rule conjI, rule fnn, rule computeArgs_void)
  have s: "genStructOrUnion default_config [] {} (Union (Some ''type'') (Some [intField ''a''])) [] False
      = Inr (genComment default_config (''Unable to generate ''
                                     @ (if True \<and> Some [intField ''a''] \<noteq> None then ''union'' else ''struct'')
                                     @ '' '' @ sq @ ''type'' @ sq @ '' because its name is a Chapel keyword'')
             @ [[]], {})"
    by (rule T [THEN conjunct2, THEN conjunct1, THEN mp]) (simp add: su)
  have s': "genStructOrUnion default_config [] {} (Union (Some ''type'') (Some [intField ''a''])) [] False
      = Inr (genComment default_config (''Unable to generate union '' @ sq @ ''type'' @ sq
                                        @ '' because its name is a Chapel keyword'') @ [[]], {})"
    using s by simp
  have v: "genVar (Decl (Some ''type'') (TypeDecl (Some ''type'') [] (IdentifierType [''int''])) None)
      = Inr [''extern var c2chapel_'' @ ''type'' @ '' : '' @ ''c_int'' @ '';'', []]"
    by (rule T [THEN conjunct2, THEN conjunct2, THEN conjunct1, THEN mp]) (rule rt)
  have m: "[] = ([]::string) \<and> True \<and> \<not> False"
    by (rule T [THEN conjunct2, THEN conjunct2, THEN conjunct2, THEN mp])
       (rule conjI, rule np, rule conjI, rule dn, rule gm)
  from f [unfolded comment_function_type] s' [unfolded comment_union_type] v m gm keyword_type
  show ?thesis
    by simp
qed

section \<open>Integer literals defined by the preprocessor\<close>

lemma count_genComment_const: "count_list (genComment cfg s) (CHR ''e'' # t) = 0"
  by (auto simp: count_list_0_iff genComment_def)

lemma count_emit_lines:
  "count_list (emit_lines cfg first lines) (''extern const '' @ n @ '' : int;'')
     = count_list (map match_define lines) (Some n)"
  by (induction lines arbitrary: first)
     (auto simp: count_genComment_const split: option.splits)

lemma match_define_answer: "match_define (''#define ANSWER 42'' @ nl) = Some ''ANSWER''"
  by code_simp

lemma emit_defines_twice:
  "emit_defines default_config [''#define ANSWER 42'' @ nl, ''#define ANSWER 42'' @ nl]
   = [''// #define'' @ sq @ ''d integer literals:'',
      ''// Note: some of these may have been defined with an ifdef'',
      ''extern const ANSWER : int;'',
      ''extern const ANSWER : int;'',
      [],
      ''// End of #define'' @ sq @ ''d integer literals'',
      []]"
  by code_simp

text \<open>
  Claim C9, as stated, fails: a file that holds the line \<^verbatim>\<open>#define ANSWER 42\<close> twice
  gets the declaration \<^verbatim>\<open>extern const ANSWER : int;\<close> twice.
\<close>

theorem C9_repeated_define_counterexample:
  "emit_defines default_config [''#define ANSWER 42'' @ nl, ''#define ANSWER 42'' @ nl]
   = [''// #define'' @ sq @ ''d integer literals:'',
      ''// Note: some of these may have been defined with an ifdef'',
      ''extern const ANSWER : int;'',
      ''extern const ANSWER : int;'',
      [],
      ''// End of #define'' @ sq @ ''d integer literals'',
      []]
   \<and> count_list (emit_defines default_config [''#define ANSWER 42'' @ nl, ''#define ANSWER 42'' @ nl])
        ''extern const ANSWER : int;'' = 2"
  unfolding emit_defines_twice by (simp add: sq_def)

text \<open>
  Claim C9, amended: the declaration \<^verbatim>\<open>extern const <name> : int;\<close> is printed once
  for every line of the file that defines \<^verbatim>\<open><name>\<close> as an integer literal: as many
  times as there are such lines, also when the lines are identical. The line
  \<^verbatim>\<open>#define ANSWER 42\<close> is such a line for \<^verbatim>\<open>ANSWER\<close>.
\<close>

theorem C9_one_constant_per_line:
  "count_list (emit_defines cfg lines) (''extern const '' @ n @ '' : int;'')
     = count_list (map match_define lines) (Some n)
   \<and> match_define (''#define ANSWER 42'' @ nl) = Some ''ANSWER''"
  using count_emit_lines [of cfg True lines n] match_define_answer by (simp add: emit_defines_def)

section \<open>The order of the output\<close>








subsection \<open>Two runs of the program\<close>











subsection \<open>Declarations and their places in the file\<close>




end
